theory Spec2Isabelle
  imports Complex_Main
begin

section \<open>The regulatory database: types of @holmdigital/standards\<close>

text \<open>
  The string-literal union types of \<^verbatim>\<open>types.ts\<close> are datatypes with one constructor per
  literal; the interfaces are records with the fields of the source, optional fields
  (\<^verbatim>\<open>f?: T\<close>) as options.
\<close>

datatype WCAGLevel = Level_A | Level_AA | Level_AAA

datatype WCAGVersion = Version_2_0 | Version_2_1 | Version_2_2

datatype DiggRisk = Risk_low | Risk_medium | Risk_high | Risk_critical

datatype EAAImpact = Impact_none | Impact_low | Impact_medium | Impact_high | Impact_critical

datatype TestComplexity = Complexity_simple | Complexity_moderate | Complexity_complex

record Remediation =
  description :: string
  technicalGuidance :: string
  component :: "string option"
  codeExample :: "string option"
  wcagTechnique :: "string list option"

text \<open>
  \<^verbatim>\<open>HolmDigitalInsight\<close> has an index signature \<^verbatim>\<open>[key: string]: any\<close> beside its declared
  fields: \<open>otherKeys\<close> holds every key that is not a declared field.
\<close>

record HolmDigitalInsight =
  diggRisk :: DiggRisk
  eaaImpact :: EAAImpact
  swedishInterpretation :: "string option"
  commonMistakes :: "string list option"
  diggPrecedent :: "string option"
  priorityRationale :: "string option"
  otherKeys :: "string \<rightharpoonup> string"

record Testability =
  automated :: bool
  requiresManualCheck :: bool
  pseudoAutomation :: bool
  complexity :: TestComplexity

record ConvergenceRule =
  ruleId :: string
  wcagCriteria :: string
  wcagLevel :: WCAGLevel
  wcagTitle :: string
  wcagVersion :: WCAGVersion
  en301549Criteria :: string
  en301549Title :: string
  en301549Chapter :: int
  dosLagenApplies :: bool
  dosLagenReference :: string
  remediation :: Remediation
  holmdigitalInsight :: HolmDigitalInsight
  testability :: Testability
  tags :: "string list"

text \<open>
  One entry of the \<^verbatim>\<open>failingNodes\<close> list that \<^verbatim>\<open>enrichResults\<close> attaches to a report
  (outside the declared interface, through \<^verbatim>\<open>as any\<close>).
\<close>

record FailingNode =
  html :: string
  target :: string
  failureSummary :: string

record RegulatoryReport =
  ruleId :: string
  wcagCriteria :: string
  en301549Criteria :: string
  dosLagenReference :: string
  diggRisk :: DiggRisk
  eaaImpact :: EAAImpact
  remediation :: Remediation
  holmdigitalInsight :: HolmDigitalInsight
  testability :: Testability
  failingNodes :: "FailingNode list option"

section \<open>The regulatory database: queries\<close>

text \<open>
  The five JSON tables \<^verbatim>\<open>rules.<lang>.json\<close> are data of the package; their content is a
  parameter of every query.
\<close>

record RulesData =
  rulesEn :: "ConvergenceRule list"
  rulesSv :: "ConvergenceRule list"
  rulesDe :: "ConvergenceRule list"
  rulesFr :: "ConvergenceRule list"
  rulesEs :: "ConvergenceRule list"

definition getData :: "RulesData \<Rightarrow> string \<Rightarrow> ConvergenceRule list" where
  "getData db lang =
     (if lang = ''sv'' then rulesSv db
      else if lang = ''de'' then rulesDe db
      else if lang = ''fr'' then rulesFr db
      else if lang = ''es'' then rulesEs db
      else rulesEn db)"

text \<open>
  Modelled from the spec: the content of the tables (\<^verbatim>\<open>data/rules.<lang>.json\<close>) is not
  among the sources. The specification describes each table as keyed by rule id: no two
  rules of a table have the same \<open>ruleId\<close>.
\<close>

definition keyed_by_ruleId :: "ConvergenceRule list \<Rightarrow> bool" where
  "keyed_by_ruleId data = distinct (map ConvergenceRule.ruleId data)"

text \<open>\<^verbatim>\<open>getData(lang).find((r) => r.ruleId === ruleId) || null\<close>: the first rule with that id.\<close>

definition getConvergenceRule :: "RulesData \<Rightarrow> string \<Rightarrow> string \<Rightarrow> ConvergenceRule option" where
  "getConvergenceRule db rid lang =
     find (\<lambda>r. ConvergenceRule.ruleId r = rid) (getData db lang)"

definition generateRegulatoryReport :: "RulesData \<Rightarrow> string \<Rightarrow> string \<Rightarrow> RegulatoryReport option" where
  "generateRegulatoryReport db rid lang =
     (case getConvergenceRule db rid lang of
        None \<Rightarrow> None
      | Some rule \<Rightarrow> Some \<lparr>
          RegulatoryReport.ruleId = ConvergenceRule.ruleId rule,
          wcagCriteria = ConvergenceRule.wcagCriteria rule,
          en301549Criteria = ConvergenceRule.en301549Criteria rule,
          dosLagenReference = ConvergenceRule.dosLagenReference rule,
          diggRisk = HolmDigitalInsight.diggRisk (ConvergenceRule.holmdigitalInsight rule),
          eaaImpact = HolmDigitalInsight.eaaImpact (ConvergenceRule.holmdigitalInsight rule),
          remediation = ConvergenceRule.remediation rule,
          holmdigitalInsight = ConvergenceRule.holmdigitalInsight rule,
          testability = ConvergenceRule.testability rule,
          failingNodes = None \<rparr>)"

text \<open>
  \<^verbatim>\<open>getData(lang).filter((rule) => tags.some((tag) => rule.tags.includes(tag)))\<close>:
  the rules sharing a tag with \<open>ts\<close>, in the order of the table.
\<close>

definition searchRulesByTags :: "RulesData \<Rightarrow> string list \<Rightarrow> string \<Rightarrow> ConvergenceRule list" where
  "searchRulesByTags db ts lang =
     filter (\<lambda>rule. list_ex (\<lambda>tag. List.member (ConvergenceRule.tags rule) tag) ts) (getData db lang)"

section \<open>The scanner: raw violations and their enrichment\<close>

text \<open>
  The part of an axe-core result that \<^verbatim>\<open>enrichResults\<close> reads. The field \<^verbatim>\<open>id\<close> of a
  violation is \<open>id_axe\<close> here and \<^verbatim>\<open>help\<close> is \<open>help_axe\<close> (\<open>id\<close> is a constant of HOL,
  \<open>help\<close> a command). An entry of the \<^verbatim>\<open>target\<close> of a node is a selector, or, for a node
  inside shadow trees, an array of selectors.
\<close>

datatype CrossTreeSelector = Selector string | ShadowDomSelector "string list"

record AxeNode =
  html :: string
  target :: "CrossTreeSelector list"
  failureSummary :: string

record AxeViolation =
  id_axe :: string
  tags :: "string list"
  help_axe :: string
  description :: string
  nodes :: "AxeNode list"

record AxeResults =
  violations :: "AxeViolation list"

text \<open>
  \<^verbatim>\<open>Array.prototype.join\<close> on an array of strings. An entry that is itself an array is
  turned into a string first, which joins it with commas (\<open>selectorToString\<close>).
\<close>

fun join :: "string \<Rightarrow> string list \<Rightarrow> string" where
  "join sep [] = []"
| "join sep [x] = x"
| "join sep (x # y # ys) = x @ sep @ join sep (y # ys)"

fun selectorToString :: "CrossTreeSelector \<Rightarrow> string" where
  "selectorToString (Selector sel) = sel"
| "selectorToString (ShadowDomSelector sels) = join '','' sels"

text \<open>
  The two string literals of the synthetic report that are not ASCII: each character is
  one code unit below 256 (\<open>0xE4\<close> is a-umlaut, \<open>0xF6\<close> is o-umlaut).
\<close>

definition manual_assessment_text :: string where
  "manual_assessment_text =
     ''Kr'' @ [CHR 0xE4] @ ''ver manuell bed'' @ [CHR 0xF6] @ ''mning''"

definition missing_mapping_text :: string where
  "missing_mapping_text =
     ''Detta fel uppt'' @ [CHR 0xE4] @
     ''cktes av scannern men saknar specifik mappning i HolmDigital-databasen.''"

text \<open>
  The body of the \<^verbatim>\<open>for (const violation of axeResults.violations)\<close> loop of
  \<^verbatim>\<open>enrichResults\<close>: the report that one iteration pushes.
\<close>

definition enrichViolation :: "RulesData \<Rightarrow> string \<Rightarrow> AxeViolation \<Rightarrow> RegulatoryReport" where
  "enrichViolation db lang violation =
     (let report0 = generateRegulatoryReport db (id_axe violation) lang;
          report =
            (if report0 = None then
               (let matchingRules = searchRulesByTags db (AxeViolation.tags violation) lang
                in if length matchingRules > 0
                   then generateRegulatoryReport db (ConvergenceRule.ruleId (matchingRules ! 0)) lang
                   else report0)
             else report0)
      in case report of
           Some r \<Rightarrow>
             r \<lparr> RegulatoryReport.holmdigitalInsight :=
                   (RegulatoryReport.holmdigitalInsight r)
                     \<lparr> otherKeys :=
                         (otherKeys (RegulatoryReport.holmdigitalInsight r))
                           (''reasoning'' \<mapsto> help_axe violation) \<rparr>,
                 failingNodes :=
                   Some (map (\<lambda>node. \<lparr> FailingNode.html = AxeNode.html node,
                                         target = join '' '' (map selectorToString (AxeNode.target node)),
                                         failureSummary = AxeNode.failureSummary node \<rparr>)
                             (nodes violation)) \<rparr>
         | None \<Rightarrow>
             \<lparr> RegulatoryReport.ruleId = id_axe violation,
               wcagCriteria = ''Unknown'',
               en301549Criteria = ''Unknown'',
               dosLagenReference = manual_assessment_text,
               diggRisk = Risk_medium,
               eaaImpact = Impact_medium,
               remediation =
                 \<lparr> Remediation.description = help_axe violation,
                   technicalGuidance = AxeViolation.description violation,
                   component = None,
                   codeExample = None,
                   wcagTechnique = None \<rparr>,
               holmdigitalInsight =
                 \<lparr> HolmDigitalInsight.diggRisk = Risk_medium,
                   eaaImpact = Impact_medium,
                   swedishInterpretation = Some (help_axe violation),
                   commonMistakes = None,
                   diggPrecedent = None,
                   priorityRationale = Some missing_mapping_text,
                   otherKeys = Map.empty \<rparr>,
               testability =
                 \<lparr> automated = True,
                   requiresManualCheck = False,
                   pseudoAutomation = False,
                   complexity = Complexity_moderate \<rparr>,
               failingNodes = None \<rparr>)"

text \<open>The loop itself: \<open>reports\<close> is the array the iterations push to.\<close>

fun enrichLoop :: "RulesData \<Rightarrow> string \<Rightarrow> AxeViolation list \<Rightarrow> RegulatoryReport list \<Rightarrow> RegulatoryReport list" where
  "enrichLoop db lang [] reports = reports"
| "enrichLoop db lang (violation # rest) reports =
     enrichLoop db lang rest (reports @ [enrichViolation db lang violation])"

text \<open>\<open>lang\<close> is the value of \<^verbatim>\<open>getCurrentLang()\<close> when \<^verbatim>\<open>enrichResults\<close> runs.\<close>

definition enrichResults :: "RulesData \<Rightarrow> string \<Rightarrow> AxeResults \<Rightarrow> RegulatoryReport list" where
  "enrichResults db lang axeResults = enrichLoop db lang (violations axeResults) []"

section \<open>The scanner: the result package\<close>

record ValidationError =
  rule :: string
  message :: string
  line :: int
  column :: int
  selector :: "string option"

record ValidationResult =
  valid :: bool
  errors :: "ValidationError list"

record Stats =
  critical :: int
  high :: int
  medium :: int
  low :: int
  total :: int

datatype ComplianceStatus = PASS | FAIL

record ScanResult =
  url :: string
  timestamp :: string
  reports :: "RegulatoryReport list"
  stats :: Stats
  score :: int
  complianceStatus :: ComplianceStatus
  htmlValidation :: "ValidationResult option"

text \<open>
  \<open>options_url\<close> is \<^verbatim>\<open>this.options.url\<close> and \<open>now\<close> is \<^verbatim>\<open>new Date().toISOString()\<close>.
  The counts are lengths of arrays, so the arithmetic of the source is exact on them.
\<close>

definition generateResultPackage :: "string \<Rightarrow> string \<Rightarrow> RegulatoryReport list \<Rightarrow> ScanResult" where
  "generateResultPackage options_url now rs =
     (let st = \<lparr>
            critical = int (length (filter (\<lambda>r. HolmDigitalInsight.diggRisk (RegulatoryReport.holmdigitalInsight r) = Risk_critical) rs)),
            high = int (length (filter (\<lambda>r. HolmDigitalInsight.diggRisk (RegulatoryReport.holmdigitalInsight r) = Risk_high) rs)),
            medium = int (length (filter (\<lambda>r. HolmDigitalInsight.diggRisk (RegulatoryReport.holmdigitalInsight r) = Risk_medium) rs)),
            low = int (length (filter (\<lambda>r. HolmDigitalInsight.diggRisk (RegulatoryReport.holmdigitalInsight r) = Risk_low) rs)),
            total = int (length rs) \<rparr>;
          weightedScore = (critical st * 25) + (high st * 15) + (medium st * 5) + (low st * 1);
          sc = max 0 (100 - weightedScore);
          status = (if total st = 0 then PASS else FAIL)
      in \<lparr> url = options_url,
           timestamp = now,
           reports = rs,
           stats = st,
           score = sc,
           complianceStatus = status,
           htmlValidation = None \<rparr>)"

section \<open>The virtual DOM builder\<close>

text \<open>
  \<^verbatim>\<open>VirtualNode\<close> is recursive through its child list, so it is a datatype whose
  selectors are the fields of the interface. \<^verbatim>\<open>isShadowRoot\<close> is optional in the interface
  (the bodyless fallback leaves it out); \<^verbatim>\<open>Record<string, string>\<close> is a map.
\<close>

datatype ShadowMode = Mode_open | Mode_closed

record Rect =
  x :: real
  y :: real
  width :: real
  height :: real

datatype VirtualNode = VirtualNode
  (nodeId: string)
  (tagName: string)
  (attributes: "string \<rightharpoonup> string")
  (children: "VirtualNode list")
  (parentId: "string option")
  (isShadowRoot: "bool option")
  (shadowMode: "ShadowMode option")
  (rect: Rect)
  (computedStyle: "(string \<rightharpoonup> string) option")
  (textContent: "string option")

record VirtualDOMConfig =
  includeComputedStyle :: "string list option"
  maxDepth :: "int option"

text \<open>
  The page that the injected script reads. An element carries what the script asks of it:
  \<^verbatim>\<open>tagName\<close>, the \<^verbatim>\<open>attributes\<close> in order, \<^verbatim>\<open>childNodes\<close>, the value of its
  \<^verbatim>\<open>shadowRoot\<close> property, \<^verbatim>\<open>getBoundingClientRect()\<close>, the declarations behind
  \<^verbatim>\<open>getComputedStyle\<close> and \<^verbatim>\<open>textContent\<close>. A document fragment carries its \<^verbatim>\<open>mode\<close>
  (present on a shadow root), its \<^verbatim>\<open>childNodes\<close> and \<^verbatim>\<open>textContent\<close>. Every other node
  that can be a child is character data. The accessors below are the DOM properties; on a
  node without the property they give the empty value, and \<^verbatim>\<open>traverse\<close> reads them only
  where the source does.
\<close>

datatype CharacterDataKind = TextNode | CDATASection | ProcessingInstruction | Comment

datatype dom_node =
    Element string "(string \<times> string) list" "dom_node list" "dom_node option" Rect
      "(string \<times> string) list" string
  | DocumentFragment "ShadowMode option" "dom_node list" string
  | CharacterData CharacterDataKind string

definition ELEMENT_NODE :: nat where "ELEMENT_NODE = 1"
definition DOCUMENT_FRAGMENT_NODE :: nat where "DOCUMENT_FRAGMENT_NODE = 11"

fun nodeType :: "dom_node \<Rightarrow> nat" where
  "nodeType (Element tag attrs kids sr r st txt) = ELEMENT_NODE"
| "nodeType (DocumentFragment m kids txt) = DOCUMENT_FRAGMENT_NODE"
| "nodeType (CharacterData TextNode txt) = 3"
| "nodeType (CharacterData CDATASection txt) = 4"
| "nodeType (CharacterData ProcessingInstruction txt) = 7"
| "nodeType (CharacterData Comment txt) = 8"

fun dom_tagName :: "dom_node \<Rightarrow> string" where
  "dom_tagName (Element tag attrs kids sr r st txt) = tag"
| "dom_tagName n = []"

fun dom_attributes :: "dom_node \<Rightarrow> (string \<times> string) list" where
  "dom_attributes (Element tag attrs kids sr r st txt) = attrs"
| "dom_attributes n = []"

fun childNodes :: "dom_node \<Rightarrow> dom_node list" where
  "childNodes (Element tag attrs kids sr r st txt) = kids"
| "childNodes (DocumentFragment m kids txt) = kids"
| "childNodes (CharacterData k txt) = []"

fun shadowRoot :: "dom_node \<Rightarrow> dom_node option" where
  "shadowRoot (Element tag attrs kids sr r st txt) = sr"
| "shadowRoot n = None"

fun mode :: "dom_node \<Rightarrow> ShadowMode option" where
  "mode (DocumentFragment m kids txt) = m"
| "mode n = None"

fun getBoundingClientRect :: "dom_node \<Rightarrow> Rect" where
  "getBoundingClientRect (Element tag attrs kids sr r st txt) = r"
| "getBoundingClientRect n = \<lparr> x = 0, y = 0, width = 0, height = 0 \<rparr>"

fun getComputedStyle :: "dom_node \<Rightarrow> (string \<times> string) list" where
  "getComputedStyle (Element tag attrs kids sr r st txt) = st"
| "getComputedStyle n = []"

definition getPropertyValue :: "(string \<times> string) list \<Rightarrow> string \<Rightarrow> string" where
  "getPropertyValue style prop = (case map_of style prop of None \<Rightarrow> [] | Some v \<Rightarrow> v)"

fun dom_textContent :: "dom_node \<Rightarrow> string" where
  "dom_textContent (Element tag attrs kids sr r st txt) = txt"
| "dom_textContent (DocumentFragment m kids txt) = txt"
| "dom_textContent (CharacterData k txt) = txt"

text \<open>
  \<^verbatim>\<open>String.prototype.toLowerCase\<close>. A character of a string is a code unit below 256,
  and the upper-case letters among these are A to Z and \<open>0xC0\<close> to \<open>0xDE\<close> without the
  multiplication sign \<open>0xD7\<close>; the lower-case letter of each is 32 above it.
  \<open>numberToString\<close> is \<^verbatim>\<open>String(n)\<close> for a counter value.
\<close>

definition upperCaseLetters :: string where
  "upperCaseLetters =
     ''ABCDEFGHIJKLMNOPQRSTUVWXYZ'' @
     [CHR 0xC0, CHR 0xC1, CHR 0xC2, CHR 0xC3, CHR 0xC4, CHR 0xC5, CHR 0xC6, CHR 0xC7,
        CHR 0xC8, CHR 0xC9, CHR 0xCA, CHR 0xCB, CHR 0xCC, CHR 0xCD, CHR 0xCE, CHR 0xCF,
        CHR 0xD0, CHR 0xD1, CHR 0xD2, CHR 0xD3, CHR 0xD4, CHR 0xD5, CHR 0xD6, CHR 0xD8,
        CHR 0xD9, CHR 0xDA, CHR 0xDB, CHR 0xDC, CHR 0xDD, CHR 0xDE]"

definition lowerCaseLetters :: string where
  "lowerCaseLetters =
     ''abcdefghijklmnopqrstuvwxyz'' @
     [CHR 0xE0, CHR 0xE1, CHR 0xE2, CHR 0xE3, CHR 0xE4, CHR 0xE5, CHR 0xE6, CHR 0xE7,
        CHR 0xE8, CHR 0xE9, CHR 0xEA, CHR 0xEB, CHR 0xEC, CHR 0xED, CHR 0xEE, CHR 0xEF,
        CHR 0xF0, CHR 0xF1, CHR 0xF2, CHR 0xF3, CHR 0xF4, CHR 0xF5, CHR 0xF6, CHR 0xF8,
        CHR 0xF9, CHR 0xFA, CHR 0xFB, CHR 0xFC, CHR 0xFD, CHR 0xFE]"

definition toLowerCase :: "string \<Rightarrow> string" where
  "toLowerCase s =
     map (\<lambda>c. case map_of (zip upperCaseLetters lowerCaseLetters) c of
                  None \<Rightarrow> c
                | Some l \<Rightarrow> l) s"

fun numberToString :: "nat \<Rightarrow> string" where
  "numberToString n =
     (if n < 10 then [''0123456789'' ! n]
      else numberToString (n div 10) @ [''0123456789'' ! (n mod 10)])"

declare numberToString.simps [simp del]

text \<open>
  \<^verbatim>\<open>nodeIdCounter\<close> is a variable of the injected script: \<^verbatim>\<open>generateId\<close> and
  \<^verbatim>\<open>traverse\<close> take its value and return the new one.
\<close>

definition generateId :: "nat \<Rightarrow> string \<times> nat" where
  "generateId nodeIdCounter = (''vn-'' @ numberToString (nodeIdCounter + 1), nodeIdCounter + 1)"

text \<open>
  \<^verbatim>\<open>attrs[attr.name] = attr.value\<close> on a plain object: the assignment to the key
  \<^verbatim>\<open>__proto__\<close> of a string stores nothing.
\<close>

definition getAttributes :: "dom_node \<Rightarrow> (string \<rightharpoonup> string)" where
  "getAttributes element =
     fold (\<lambda>attr attrs. if fst attr = ''__proto__'' then attrs else attrs(fst attr \<mapsto> snd attr))
          (dom_attributes element) Map.empty"

text \<open>
  The two mutations of a node under construction: \<^verbatim>\<open>vNode.children.push(c)\<close> and
  \<^verbatim>\<open>vNode.shadowMode = m\<close>.
\<close>

definition push_child :: "VirtualNode \<Rightarrow> VirtualNode \<Rightarrow> VirtualNode" where
  "push_child v c =
     VirtualNode (nodeId v) (tagName v) (attributes v) (children v @ [c]) (parentId v)
       (isShadowRoot v) (shadowMode v) (rect v) (computedStyle v) (textContent v)"

definition set_shadowMode :: "VirtualNode \<Rightarrow> ShadowMode option \<Rightarrow> VirtualNode" where
  "set_shadowMode v m =
     VirtualNode (nodeId v) (tagName v) (attributes v) (children v) (parentId v)
       (isShadowRoot v) m (rect v) (computedStyle v) (textContent v)"

text \<open>
  \<^verbatim>\<open>config.maxDepth && depth > config.maxDepth\<close>: a \<^verbatim>\<open>maxDepth\<close> that is undefined or 0
  is falsy and prunes nothing.
\<close>

definition beyond_maxDepth :: "VirtualDOMConfig \<Rightarrow> nat \<Rightarrow> bool" where
  "beyond_maxDepth config depth =
     (case maxDepth config of None \<Rightarrow> False | Some m \<Rightarrow> m \<noteq> 0 \<and> int depth > m)"

text \<open>
  \<^verbatim>\<open>traverse(node, parent, depth)\<close>. The call is made on a node that exists, so the test
  \<^verbatim>\<open>!node\<close> is false. \<open>forEachChild\<close> is the
  \<^verbatim>\<open>Array.from(element.childNodes).forEach\<close> loop over the light DOM; its \<open>vNode\<close> is the
  node whose child list the loop extends.
\<close>

function traverse :: "VirtualDOMConfig \<Rightarrow> dom_node \<Rightarrow> VirtualNode option \<Rightarrow> nat \<Rightarrow> nat \<Rightarrow> VirtualNode option \<times> nat"
  and forEachChild :: "VirtualDOMConfig \<Rightarrow> dom_node list \<Rightarrow> VirtualNode \<Rightarrow> nat \<Rightarrow> nat \<Rightarrow> VirtualNode \<times> nat"
where
  "traverse config node parent depth nodeIdCounter =
     (if beyond_maxDepth config depth then (None, nodeIdCounter)
      else if nodeType node \<noteq> ELEMENT_NODE \<and> nodeType node \<noteq> DOCUMENT_FRAGMENT_NODE
      then (None, nodeIdCounter)
      else
        (let isShadow = (nodeType node = DOCUMENT_FRAGMENT_NODE);
             tag = (if isShadow then ''#shadow-root'' else toLowerCase (dom_tagName node));
             attrs = (if \<not> isShadow then getAttributes node else Map.empty);
             style =
               (if \<not> isShadow then
                  (case includeComputedStyle config of
                     None \<Rightarrow> None
                   | Some props \<Rightarrow>
                       Some (fold (\<lambda>prop cs. cs(prop \<mapsto> getPropertyValue (getComputedStyle node) prop))
                                  props Map.empty))
                else None);
             (newId, counter1) = generateId nodeIdCounter;
             vNode0 = VirtualNode newId tag attrs [] (map_option nodeId parent) (Some isShadow) None
                        (if \<not> isShadow then getBoundingClientRect node
                         else \<lparr> x = 0, y = 0, width = 0, height = 0 \<rparr>)
                        style
                        (if dom_textContent node = [] then None else Some (dom_textContent node));
             vNode1 = (if isShadow \<and> mode node \<noteq> None then set_shadowMode vNode0 (mode node) else vNode0);
             (vNode2, counter2) = forEachChild config (childNodes node) vNode1 depth counter1
         in if \<not> isShadow \<and> shadowRoot node \<noteq> None then
              (case traverse config (the (shadowRoot node)) (Some vNode2) (depth + 1) counter2 of
                 (None, counter3) \<Rightarrow> (Some vNode2, counter3)
               | (Some shadowVNode, counter3) \<Rightarrow> (Some (push_child vNode2 shadowVNode), counter3))
            else (Some vNode2, counter2)))"
| "forEachChild config [] vNode depth nodeIdCounter = (vNode, nodeIdCounter)"
| "forEachChild config (child # rest) vNode depth nodeIdCounter =
     (if nodeType child = ELEMENT_NODE then
        (case traverse config child (Some vNode) (depth + 1) nodeIdCounter of
           (None, counter1) \<Rightarrow> forEachChild config rest vNode depth counter1
         | (Some childVNode, counter1) \<Rightarrow> forEachChild config rest (push_child vNode childVNode) depth counter1)
      else forEachChild config rest vNode depth nodeIdCounter)"
  by pat_completeness auto

lemma size_childNodes: "nodeType node = ELEMENT_NODE \<or> nodeType node = DOCUMENT_FRAGMENT_NODE \<Longrightarrow> size_list size (childNodes node) < size node"
  by (cases node rule: nodeType.cases) (auto simp: ELEMENT_NODE_def DOCUMENT_FRAGMENT_NODE_def)

lemma size_shadowRoot: "shadowRoot node = Some sr \<Longrightarrow> size sr < size node"
  by (cases node) auto

termination traverse
  apply (relation "measure (\<lambda>a. case a of Inl (c, node, p, d, k) \<Rightarrow> size node
                                   | Inr (c, kids, v, d, k) \<Rightarrow> size_list size kids)")
  apply (auto simp: size_childNodes size_shadowRoot)
  done

declare traverse.simps [simp del]

text \<open>
  The function that \<^verbatim>\<open>build\<close> evaluates in the page: \<open>body\<close> is \<^verbatim>\<open>document.body\<close>.
\<close>

definition build :: "VirtualDOMConfig \<Rightarrow> dom_node option \<Rightarrow> VirtualNode option" where
  "build config body =
     (case body of
        None \<Rightarrow>
          Some (VirtualNode ''root-fallback'' ''body'' Map.empty [] None None None
                  \<lparr> x = 0, y = 0, width = 0, height = 0 \<rparr> None None)
      | Some b \<Rightarrow> fst (traverse config b None 0 0))"

section \<open>The scanner: one scan of a page\<close>

text \<open>
  \<^verbatim>\<open>scan()\<close> drives a browser through puppeteer. Every call it awaits is a call to the
  outside; what each of them answers is given by an \<open>Environment\<close>, and what the scan does
  to the outside is recorded in a \<open>ScanState\<close>: the field \<^verbatim>\<open>this.browser\<close> of the scanner,
  the browser processes that are open, the number of \<^verbatim>\<open>page.goto\<close> calls made, and the
  trace of the calls with the arguments of the source. A thrown value is an \<open>exn\<close>, and
  an awaited call that throws is \<open>Inl\<close>.
\<close>

datatype exn = Error string

record Viewport =
  width :: int
  height :: int

text \<open>The fields of \<^verbatim>\<open>this.options\<close> that \<^verbatim>\<open>scan\<close> reads, after the defaults of the constructor.\<close>

record ScannerOptions =
  url :: string
  headless :: bool
  viewport :: "Viewport option"
  silent :: bool

datatype Event =
    Launch bool
  | NewPage
  | SetUserAgent
  | SetViewport Viewport
  | Goto string string nat
  | SetTimeout nat
  | WaitForNetworkIdle nat nat nat
  | Content
  | Validate
  | EvaluateBuild
  | InjectAxe
  | EvaluateAxe
  | BrowserClose nat
  | ConsoleLog string

text \<open>
  What the outside answers. For a call whose value is not used, \<open>None\<close> is a call that
  returns and \<open>Some e\<close> one that throws \<open>e\<close>; \<open>goto_result env k\<close> is the outcome of the
  call of \<^verbatim>\<open>page.goto\<close> made after \<open>k\<close> earlier ones. \<open>validate_result\<close> is the outcome of
  \<^verbatim>\<open>HtmlValidator.validate\<close> on a page content, \<open>build_failure\<close> a failure of the
  \<^verbatim>\<open>page.evaluate\<close> call of the virtual DOM builder, \<open>document_body\<close> the body of the
  page, \<open>has_documentElement\<close> the test that the script of the axe run makes first, and
  \<open>axe_run_result\<close> the outcome of \<^verbatim>\<open>axe.run\<close>, and \<open>close_result\<close> the outcome of
  \<^verbatim>\<open>browser.close()\<close>.
\<close>

record Environment =
  launch_result :: "exn option"
  newPage_result :: "exn option"
  setUserAgent_result :: "exn option"
  setViewport_result :: "exn option"
  goto_result :: "nat \<Rightarrow> exn option"
  waitForNetworkIdle_result :: "exn option"
  content_result :: "exn + string"
  validate_result :: "string \<Rightarrow> exn + ValidationResult"
  build_failure :: "exn option"
  document_body :: "dom_node option"
  injectAxe_result :: "exn option"
  has_documentElement :: bool
  axe_run_result :: "exn + AxeResults"
  close_result :: "exn option"

record ScanState =
  this_browser :: "nat option"
  processes :: "nat list"
  gotoCalls :: nat
  trace :: "Event list"

definition emit :: "Event \<Rightarrow> ScanState \<Rightarrow> ScanState" where
  "emit ev st = st \<lparr> trace := trace st @ [ev] \<rparr>"

text \<open>\<^verbatim>\<open>this.log(message)\<close>: prints unless the scanner is silent.\<close>

definition log_scan :: "ScannerOptions \<Rightarrow> string \<Rightarrow> ScanState \<Rightarrow> ScanState" where
  "log_scan opts msg st = (if \<not> silent opts then emit (ConsoleLog msg) st else st)"

text \<open>
  Sequencing of awaited calls: a thrown value ends the sequence. \<open>say\<close> is a call of
  \<^verbatim>\<open>this.log\<close> as a step of the sequence, \<open>skip\<close> the step that does nothing.
\<close>

definition andThen :: "(ScanState \<Rightarrow> (exn + 'a) \<times> ScanState) \<Rightarrow> ('a \<Rightarrow> ScanState \<Rightarrow> (exn + 'b) \<times> ScanState)
    \<Rightarrow> ScanState \<Rightarrow> (exn + 'b) \<times> ScanState" where
  "andThen m f st = (case m st of (Inl e, st') \<Rightarrow> (Inl e, st') | (Inr a, st') \<Rightarrow> f a st')"

definition say :: "ScannerOptions \<Rightarrow> string \<Rightarrow> ScanState \<Rightarrow> (exn + unit) \<times> ScanState" where
  "say opts msg st = (Inr (), log_scan opts msg st)"

definition skip :: "ScanState \<Rightarrow> (exn + unit) \<times> ScanState" where
  "skip st = (Inr (), st)"

text \<open>
  \<^verbatim>\<open>try { body } finally { fin }\<close>: \<open>fin\<close> runs after \<open>body\<close> however \<open>body\<close> ends. When
  \<open>fin\<close> returns, the outcome is the one of \<open>body\<close>; when \<open>fin\<close> throws, what it throws
  replaces the value or the thrown value of \<open>body\<close>.
\<close>

definition tryFinally :: "(ScanState \<Rightarrow> (exn + 'a) \<times> ScanState) \<Rightarrow> (ScanState \<Rightarrow> (exn + unit) \<times> ScanState)
    \<Rightarrow> ScanState \<Rightarrow> (exn + 'a) \<times> ScanState" where
  "tryFinally body fin st =
     (case body st of
        (r, st') \<Rightarrow>
          (case fin st' of
             (Inl e, st'') \<Rightarrow> (Inl e, st'')
           | (Inr _, st'') \<Rightarrow> (r, st'')))"

text \<open>The handle of a newly launched browser is none of the open ones.\<close>

definition fresh_handle :: "nat list \<Rightarrow> nat" where
  "fresh_handle ps = Suc (fold max ps 0)"

definition initBrowser :: "Environment \<Rightarrow> ScannerOptions \<Rightarrow> ScanState \<Rightarrow> (exn + unit) \<times> ScanState" where
  "initBrowser env opts st =
     (let st1 = emit (Launch (headless opts)) st
      in case launch_result env of
           Some e \<Rightarrow> (Inl e, st1)
         | None \<Rightarrow>
             (let b = fresh_handle (processes st1)
              in (Inr (), st1 \<lparr> this_browser := Some b, processes := processes st1 @ [b] \<rparr>)))"

definition getPage :: "Environment \<Rightarrow> ScanState \<Rightarrow> (exn + unit) \<times> ScanState" where
  "getPage env st =
     (case this_browser st of
        None \<Rightarrow> (Inl (Error ''Browser not initialized''), st)
      | Some b \<Rightarrow>
          (let st1 = emit NewPage st
           in case newPage_result env of
                Some e \<Rightarrow> (Inl e, st1)
              | None \<Rightarrow>
                  (let st2 = emit SetUserAgent st1
                   in case setUserAgent_result env of
                        Some e \<Rightarrow> (Inl e, st2)
                      | None \<Rightarrow> (Inr (), st2))))"

text \<open>\<^verbatim>\<open>if (this.options.viewport) await page.setViewport(this.options.viewport)\<close>.\<close>

definition setViewport :: "Environment \<Rightarrow> ScannerOptions \<Rightarrow> ScanState \<Rightarrow> (exn + unit) \<times> ScanState" where
  "setViewport env opts st =
     (case viewport opts of
        None \<Rightarrow> (Inr (), st)
      | Some vp \<Rightarrow>
          (let st1 = emit (SetViewport vp) st
           in case setViewport_result env of
                Some e \<Rightarrow> (Inl e, st1)
              | None \<Rightarrow> (Inr (), st1)))"

text \<open>
  The retry loop, \<^verbatim>\<open>while (retries > 0)\<close>: the first argument is \<^verbatim>\<open>retries\<close>. A call of
  \<^verbatim>\<open>page.goto\<close> that returns breaks out; one that throws decrements \<^verbatim>\<open>retries\<close>, rethrows
  when it has reached 0, and otherwise logs and waits 2000 ms.
\<close>

fun gotoLoop :: "Environment \<Rightarrow> ScannerOptions \<Rightarrow> nat \<Rightarrow> ScanState \<Rightarrow> (exn + unit) \<times> ScanState" where
  "gotoLoop env opts 0 st = (Inr (), st)"
| "gotoLoop env opts (Suc retries) st =
     (let st1 = (emit (Goto (url opts) ''domcontentloaded'' 60000) st) \<lparr> gotoCalls := gotoCalls st + 1 \<rparr>
      in case goto_result env (gotoCalls st) of
           None \<Rightarrow> (Inr (), st1)
         | Some e \<Rightarrow>
             if retries = 0 then (Inl e, st1)
             else gotoLoop env opts retries
                    (emit (SetTimeout 2000)
                       (log_scan opts
                          (''Navigation failed, retrying... ('' @ numberToString retries @ '' attempts left)'')
                          st1)))"

text \<open>
  The best-effort wait: \<^verbatim>\<open>page.waitForNetworkIdle\<close> in a \<^verbatim>\<open>try\<close> whose \<^verbatim>\<open>catch\<close> only logs.
\<close>

definition waitForNetworkIdle :: "Environment \<Rightarrow> ScannerOptions \<Rightarrow> ScanState \<Rightarrow> (exn + unit) \<times> ScanState" where
  "waitForNetworkIdle env opts st =
     (let st1 = emit (WaitForNetworkIdle 500 10000 2) st
      in case waitForNetworkIdle_result env of
           None \<Rightarrow> (Inr (), st1)
         | Some e \<Rightarrow> (Inr (), log_scan opts ''Network busy, proceeding with scan anyway...'' st1))"

definition content :: "Environment \<Rightarrow> ScanState \<Rightarrow> (exn + string) \<times> ScanState" where
  "content env st = (content_result env, emit Content st)"

definition validate :: "Environment \<Rightarrow> string \<Rightarrow> ScanState \<Rightarrow> (exn + ValidationResult) \<times> ScanState" where
  "validate env pageContent st = (validate_result env pageContent, emit Validate st)"

definition buildVirtualDOM :: "Environment \<Rightarrow> ScanState \<Rightarrow> (exn + VirtualNode option) \<times> ScanState" where
  "buildVirtualDOM env st =
     (let st1 = emit EvaluateBuild st
      in case build_failure env of
           Some e \<Rightarrow> (Inl e, st1)
         | None \<Rightarrow>
             (Inr (build \<lparr> includeComputedStyle = Some [''color'', ''background-color''],
                            maxDepth = None \<rparr> (document_body env)), st1))"

definition injectAxe :: "Environment \<Rightarrow> ScanState \<Rightarrow> (exn + unit) \<times> ScanState" where
  "injectAxe env st =
     (let st1 = emit InjectAxe st
      in case injectAxe_result env of
           Some e \<Rightarrow> (Inl e, st1)
         | None \<Rightarrow> (Inr (), st1))"

text \<open>
  The script of the axe run: without a document element it answers with no violations,
  otherwise with what \<^verbatim>\<open>axe.run\<close> answers.
\<close>

definition runAxe :: "Environment \<Rightarrow> ScanState \<Rightarrow> (exn + AxeResults) \<times> ScanState" where
  "runAxe env st =
     (if \<not> has_documentElement env then Inr \<lparr> violations = [] \<rparr> else axe_run_result env,
      emit EvaluateAxe st)"

text \<open>
  \<^verbatim>\<open>close()\<close>: \<^verbatim>\<open>if (this.browser) { await this.browser.close(); this.browser = null; }\<close>.
  A call of \<^verbatim>\<open>browser.close()\<close> that returns has ended the browser process; one that
  throws leaves the process as it is, and the assignment after it is not reached.
\<close>

definition close :: "Environment \<Rightarrow> ScanState \<Rightarrow> (exn + unit) \<times> ScanState" where
  "close env st =
     (case this_browser st of
        None \<Rightarrow> (Inr (), st)
      | Some b \<Rightarrow>
          (let st1 = emit (BrowserClose b) st
           in case close_result env of
                Some e \<Rightarrow> (Inl e, st1)
              | None \<Rightarrow>
                  (Inr (), st1 \<lparr> processes := removeAll b (processes st1), this_browser := None \<rparr>)))"

text \<open>
  \<^verbatim>\<open>scan()\<close>. \<open>db\<close> is the regulatory database, \<open>lang\<close> the current language when the
  results are enriched, and \<open>now\<close> the time stamp of the result.
\<close>

definition scan :: "Environment \<Rightarrow> RulesData \<Rightarrow> string \<Rightarrow> string \<Rightarrow> ScannerOptions \<Rightarrow> ScanState
    \<Rightarrow> (exn + ScanResult) \<times> ScanState" where
  "scan env db lang now opts =
     tryFinally
       (andThen (initBrowser env opts) (\<lambda>_.
        andThen (getPage env) (\<lambda>page.
        andThen (setViewport env opts) (\<lambda>_.
        andThen (gotoLoop env opts 3) (\<lambda>_.
        andThen (waitForNetworkIdle env opts) (\<lambda>_.
        andThen (content env) (\<lambda>pageContent.
        andThen (validate env pageContent) (\<lambda>validation.
        andThen (if \<not> valid validation
                 then say opts (''HTML Validation: Found ''
                        @ numberToString (length (errors validation)) @ '' structural issues.'')
                 else skip) (\<lambda>_.
        andThen (buildVirtualDOM env) (\<lambda>_.
        andThen (injectAxe env) (\<lambda>_.
        andThen (say opts ''Axe injected. Running analysis...'') (\<lambda>_.
        andThen (runAxe env) (\<lambda>axeResults.
        andThen (say opts (''Raw Axe Violations: ''
                   @ numberToString (length (violations axeResults)))) (\<lambda>_.
          (\<lambda>st.
             (Inr ((generateResultPackage (url opts) now (enrichResults db lang axeResults))
                     \<lparr> htmlValidation := Some validation \<rparr>), st))))))))))))))))
       (close env)"

section \<open>Example data\<close>

text \<open>
  A small database and small inputs, on which the theorems below are instantiated: two
  English rules, one found by the id \<open>image-alt\<close> and one tagged \<open>cat.keyboard\<close>.
\<close>

definition example_rule :: "string \<Rightarrow> string list \<Rightarrow> DiggRisk \<Rightarrow> ConvergenceRule" where
  "example_rule rid ts risk =
     \<lparr> ConvergenceRule.ruleId = rid,
       wcagCriteria = ''1.1.1'',
       wcagLevel = Level_A,
       wcagTitle = ''Non-text Content'',
       wcagVersion = Version_2_1,
       en301549Criteria = ''9.1.1.1'',
       en301549Title = ''Non-text content'',
       en301549Chapter = 9,
       dosLagenApplies = True,
       dosLagenReference = ''Lag (2018:1937)'',
       remediation =
         \<lparr> Remediation.description = ''Describe the image'',
           technicalGuidance = ''Use the alt attribute'',
           component = None,
           codeExample = None,
           wcagTechnique = Some [''H37''] \<rparr>,
       holmdigitalInsight =
         \<lparr> HolmDigitalInsight.diggRisk = risk,
           eaaImpact = Impact_high,
           swedishInterpretation = Some ''Bilder ska ha textalternativ'',
           commonMistakes = None,
           diggPrecedent = None,
           priorityRationale = None,
           otherKeys = Map.empty \<rparr>,
       testability =
         \<lparr> automated = True,
           requiresManualCheck = False,
           pseudoAutomation = False,
           complexity = Complexity_simple \<rparr>,
       tags = ts \<rparr>"

definition example_db :: RulesData where
  "example_db =
     \<lparr> rulesEn = [example_rule ''image-alt'' [''cat.text-alternatives'', ''wcag111''] Risk_critical,
                  example_rule ''keyboard-accessible'' [''cat.keyboard'', ''wcag211''] Risk_high],
       rulesSv = [], rulesDe = [], rulesFr = [], rulesEs = [] \<rparr>"

definition example_violation :: "string \<Rightarrow> string list \<Rightarrow> AxeViolation" where
  "example_violation vid ts =
     \<lparr> id_axe = vid,
       tags = ts,
       help_axe = ''Elements must meet the rule'',
       description = ''Ensures the element meets the rule'',
       nodes = [\<lparr> AxeNode.html = ''<img src=a.png>'',
                  target = [Selector ''#main'', ShadowDomSelector [''my-widget'', ''img'']],
                  failureSummary = ''Fix any of the following'' \<rparr>] \<rparr>"

text \<open>A report of a given tier, as the database makes it from a rule of that tier.\<close>

definition example_report :: "DiggRisk \<Rightarrow> RegulatoryReport" where
  "example_report risk =
     \<lparr> RegulatoryReport.ruleId = ''image-alt'',
       wcagCriteria = ''1.1.1'',
       en301549Criteria = ''9.1.1.1'',
       dosLagenReference = ''Lag (2018:1937)'',
       diggRisk = risk,
       eaaImpact = Impact_high,
       remediation = ConvergenceRule.remediation (example_rule ''image-alt'' [] risk),
       holmdigitalInsight = ConvergenceRule.holmdigitalInsight (example_rule ''image-alt'' [] risk),
       testability = ConvergenceRule.testability (example_rule ''image-alt'' [] risk),
       failingNodes = None \<rparr>"

text \<open>
  Three violations as in the scenario of the specification: one found by its id, one found
  by a tag, one found by neither; and three that make one critical and two medium reports.
\<close>

definition example_violations :: "AxeViolation list" where
  "example_violations =
     [example_violation ''image-alt'' [''cat.text-alternatives''],
      example_violation ''tabindex'' [''cat.keyboard''],
      example_violation ''unmapped-rule'' [''best-practice'']]"

definition example_scored :: "AxeViolation list" where
  "example_scored =
     [example_violation ''image-alt'' [''cat.text-alternatives''],
      example_violation ''unmapped-rule'' [''best-practice''],
      example_violation ''other-unmapped-rule'' [''experimental'']]"

lemmas example_defs =
  example_db_def example_rule_def example_violation_def example_violations_def
  example_scored_def getData_def

text \<open>
  A page whose body holds one custom element with a paragraph in its light DOM and an open
  shadow root; an environment in which every navigation fails, with the options and the
  state of a scanner that has just been constructed.
\<close>

definition example_shadow :: dom_node where
  "example_shadow =
     DocumentFragment (Some Mode_open)
       [Element ''SPAN'' [] [] None \<lparr> x = 0, y = 0, width = 40, height = 10 \<rparr> [] ''inner'']
       ''inner''"

definition example_host :: dom_node where
  "example_host =
     Element ''MY-WIDGET'' [(''id'', ''w'')]
       [CharacterData TextNode ''hello'',
        Element ''P'' [] [] None \<lparr> x = 0, y = 0, width = 40, height = 10 \<rparr> [] ''hello'']
       (Some example_shadow) \<lparr> x = 0, y = 0, width = 40, height = 20 \<rparr> [] ''hello''"

definition example_page :: dom_node where
  "example_page =
     Element ''BODY'' [] [example_host] None \<lparr> x = 0, y = 0, width = 40, height = 20 \<rparr> [] ''hello''"

lemmas example_dom_defs = example_shadow_def example_host_def example_page_def

definition example_env :: Environment where
  "example_env =
     \<lparr> launch_result = None,
       newPage_result = None,
       setUserAgent_result = None,
       setViewport_result = None,
       goto_result = (\<lambda>k. Some (Error ''net::ERR_NAME_NOT_RESOLVED'')),
       waitForNetworkIdle_result = None,
       content_result = Inr ''<html></html>'',
       validate_result = (\<lambda>pc. Inr \<lparr> valid = True, errors = [] \<rparr>),
       build_failure = None,
       document_body = None,
       injectAxe_result = None,
       has_documentElement = True,
       axe_run_result = Inr \<lparr> violations = [] \<rparr>,
       close_result = None \<rparr>"

text \<open>The same environment with a \<^verbatim>\<open>browser.close()\<close> that throws.\<close>

definition example_env_close_throws :: Environment where
  "example_env_close_throws =
     example_env \<lparr> close_result := Some (Error ''Protocol error: Connection closed.'') \<rparr>"

definition example_options :: ScannerOptions where
  "example_options =
     \<lparr> url = ''https://unreachable.invalid'',
       headless = True,
       viewport = Some \<lparr> width = 1280, height = 720 \<rparr>,
       silent = False \<rparr>"

definition initial_state :: ScanState where
  "initial_state = \<lparr> this_browser = None, processes = [], gotoCalls = 0, trace = [] \<rparr>"

section \<open>Lemmas on the database queries\<close>

lemma find_ruleId_in:
  "r \<in> set data \<Longrightarrow> ConvergenceRule.ruleId r = rid \<Longrightarrow>
   \<exists>q. find (\<lambda>c. ConvergenceRule.ruleId c = rid) data = Some q \<and> q \<in> set data \<and> ConvergenceRule.ruleId q = rid"
  by (induction data) auto

lemma find_ruleId_distinct:
  "distinct (map ConvergenceRule.ruleId data) \<Longrightarrow> r \<in> set data \<Longrightarrow>
   find (\<lambda>c. ConvergenceRule.ruleId c = ConvergenceRule.ruleId r) data = Some r"
  by (induction data) (auto simp: image_iff)

lemma find_ruleId_none:
  "\<forall>r\<in>set data. ConvergenceRule.ruleId r \<noteq> rid \<Longrightarrow>
   find (\<lambda>c. ConvergenceRule.ruleId c = rid) data = None"
  by (simp add: find_None_iff)

lemma find_filter_first:
  "find P data = Some a \<Longrightarrow> filter P data \<noteq> [] \<and> filter P data ! 0 = a \<and> a \<in> set data \<and> P a"
  by (induction data) (auto split: if_splits)

lemma generateRegulatoryReport_none:
  "\<forall>r\<in>set (getData db lang). ConvergenceRule.ruleId r \<noteq> rid \<Longrightarrow>
   generateRegulatoryReport db rid lang = None"
  by (simp add: generateRegulatoryReport_def getConvergenceRule_def find_ruleId_none)

lemma searchRulesByTags_filter:
  "searchRulesByTags db ts lang =
     filter (\<lambda>rule. set (ConvergenceRule.tags rule) \<inter> set ts \<noteq> {}) (getData db lang)"
  unfolding searchRulesByTags_def
  by (rule filter_cong) (auto simp: list_ex_iff)

lemma generateRegulatoryReport_risk:
  "generateRegulatoryReport db rid lang = Some rep \<Longrightarrow>
   RegulatoryReport.diggRisk rep = HolmDigitalInsight.diggRisk (RegulatoryReport.holmdigitalInsight rep)"
  by (auto simp: generateRegulatoryReport_def split: option.splits)

lemma enrichViolation_risk:
  "RegulatoryReport.diggRisk (enrichViolation db lang violation)
     = HolmDigitalInsight.diggRisk (RegulatoryReport.holmdigitalInsight (enrichViolation db lang violation))"
  by (auto simp: enrichViolation_def Let_def split: option.splits dest: generateRegulatoryReport_risk)

lemma enrichLoop_map: "enrichLoop db lang vs acc = acc @ map (enrichViolation db lang) vs"
  by (induction vs arbitrary: acc) simp_all

lemma count_replicate: "length (filter P (replicate n a)) = (if P a then n else 0)"
  by (induction n) auto

lemma example_report_risk:
  "HolmDigitalInsight.diggRisk (RegulatoryReport.holmdigitalInsight (example_report risk)) = risk"
  by (simp add: example_report_def example_rule_def)

lemma risk_partition:
  "length (filter (\<lambda>r. f r = Risk_critical) rs) + length (filter (\<lambda>r. f r = Risk_high) rs)
   + length (filter (\<lambda>r. f r = Risk_medium) rs) + length (filter (\<lambda>r. f r = Risk_low) rs) = length rs"
proof (induction rs)
  case Nil
  show ?case by simp
next
  case (Cons r rs)
  then show ?case by (cases "f r") simp_all
qed

section \<open>Properties of the result package\<close>

text \<open>
  C2. For every scan result assembled from a report list, \<open>stats.total\<close> is the length of
  the list, and \<open>complianceStatus\<close> is \<open>PASS\<close> exactly when \<open>stats.total\<close> is 0; it is
  \<open>FAIL\<close> otherwise.
\<close>

theorem generateResultPackage_total_compliance:
  "total (stats (generateResultPackage u t rs)) = int (length rs) \<and>
   (complianceStatus (generateResultPackage u t rs) = PASS) = (total (stats (generateResultPackage u t rs)) = 0) \<and>
   (complianceStatus (generateResultPackage u t rs) = FAIL) = (total (stats (generateResultPackage u t rs)) \<noteq> 0)"
  by (simp add: generateResultPackage_def Let_def)

text \<open>
  C3. For every report list, the counts of the result package are the numbers of reports
  of the list in each tier, and its score is
  \<open>max(0, 100 - (critical * 25 + high * 15 + medium * 5 + low * 1))\<close> of these numbers; so
  for all numbers \<open>c\<close>, \<open>h\<close>, \<open>m\<close>, \<open>l\<close>, a list with that many reports in the tiers scores
  \<open>max(0, 100 - (c * 25 + h * 15 + m * 5 + l))\<close>, and there is such a list for all of them.
  In particular a list with 1 critical and 2 medium reports, and no other, scores 65.
\<close>

theorem generateResultPackage_score:
  "stats (generateResultPackage u t rs) =
     \<lparr> critical = int (length (filter (\<lambda>r. HolmDigitalInsight.diggRisk (RegulatoryReport.holmdigitalInsight r)
                                = Risk_critical) rs)),
       high = int (length (filter (\<lambda>r. HolmDigitalInsight.diggRisk (RegulatoryReport.holmdigitalInsight r)
                            = Risk_high) rs)),
       medium = int (length (filter (\<lambda>r. HolmDigitalInsight.diggRisk (RegulatoryReport.holmdigitalInsight r)
                              = Risk_medium) rs)),
       low = int (length (filter (\<lambda>r. HolmDigitalInsight.diggRisk (RegulatoryReport.holmdigitalInsight r)
                           = Risk_low) rs)),
       total = int (length rs) \<rparr> \<and>
   score (generateResultPackage u t rs) =
     max 0 (100 -
       (int (length (filter (\<lambda>r. HolmDigitalInsight.diggRisk (RegulatoryReport.holmdigitalInsight r)
                               = Risk_critical) rs)) * 25
        + int (length (filter (\<lambda>r. HolmDigitalInsight.diggRisk (RegulatoryReport.holmdigitalInsight r)
                               = Risk_high) rs)) * 15
        + int (length (filter (\<lambda>r. HolmDigitalInsight.diggRisk (RegulatoryReport.holmdigitalInsight r)
                               = Risk_medium) rs)) * 5
        + int (length (filter (\<lambda>r. HolmDigitalInsight.diggRisk (RegulatoryReport.holmdigitalInsight r)
                               = Risk_low) rs)) * 1)) \<and>
   (length (filter (\<lambda>r. HolmDigitalInsight.diggRisk (RegulatoryReport.holmdigitalInsight r)
                       = Risk_critical) rs) = c \<and>
    length (filter (\<lambda>r. HolmDigitalInsight.diggRisk (RegulatoryReport.holmdigitalInsight r)
                       = Risk_high) rs) = h \<and>
    length (filter (\<lambda>r. HolmDigitalInsight.diggRisk (RegulatoryReport.holmdigitalInsight r)
                       = Risk_medium) rs) = m \<and>
    length (filter (\<lambda>r. HolmDigitalInsight.diggRisk (RegulatoryReport.holmdigitalInsight r)
                       = Risk_low) rs) = l
    \<longrightarrow> score (generateResultPackage u t rs)
          = max 0 (100 - (int c * 25 + int h * 15 + int m * 5 + int l * 1))) \<and>
   (\<exists>rs' :: RegulatoryReport list.
      length (filter (\<lambda>r. HolmDigitalInsight.diggRisk (RegulatoryReport.holmdigitalInsight r)
                         = Risk_critical) rs') = c \<and>
      length (filter (\<lambda>r. HolmDigitalInsight.diggRisk (RegulatoryReport.holmdigitalInsight r)
                         = Risk_high) rs') = h \<and>
      length (filter (\<lambda>r. HolmDigitalInsight.diggRisk (RegulatoryReport.holmdigitalInsight r)
                         = Risk_medium) rs') = m \<and>
      length (filter (\<lambda>r. HolmDigitalInsight.diggRisk (RegulatoryReport.holmdigitalInsight r)
                         = Risk_low) rs') = l) \<and>
   (length (filter (\<lambda>r. HolmDigitalInsight.diggRisk (RegulatoryReport.holmdigitalInsight r)
                       = Risk_critical) rs) = 1 \<and>
    length (filter (\<lambda>r. HolmDigitalInsight.diggRisk (RegulatoryReport.holmdigitalInsight r)
                       = Risk_high) rs) = 0 \<and>
    length (filter (\<lambda>r. HolmDigitalInsight.diggRisk (RegulatoryReport.holmdigitalInsight r)
                       = Risk_medium) rs) = 2 \<and>
    length (filter (\<lambda>r. HolmDigitalInsight.diggRisk (RegulatoryReport.holmdigitalInsight r)
                       = Risk_low) rs) = 0
    \<longrightarrow> score (generateResultPackage u t rs) = 65)"
proof -
  have "length (filter (\<lambda>r. HolmDigitalInsight.diggRisk (RegulatoryReport.holmdigitalInsight r)
                           = Risk_critical) (replicate c (example_report Risk_critical) @ replicate h (example_report Risk_high)
              @ replicate m (example_report Risk_medium) @ replicate l (example_report Risk_low))) = c \<and>
        length (filter (\<lambda>r. HolmDigitalInsight.diggRisk (RegulatoryReport.holmdigitalInsight r)
                           = Risk_high) (replicate c (example_report Risk_critical) @ replicate h (example_report Risk_high)
              @ replicate m (example_report Risk_medium) @ replicate l (example_report Risk_low))) = h \<and>
        length (filter (\<lambda>r. HolmDigitalInsight.diggRisk (RegulatoryReport.holmdigitalInsight r)
                           = Risk_medium) (replicate c (example_report Risk_critical) @ replicate h (example_report Risk_high)
              @ replicate m (example_report Risk_medium) @ replicate l (example_report Risk_low))) = m \<and>
        length (filter (\<lambda>r. HolmDigitalInsight.diggRisk (RegulatoryReport.holmdigitalInsight r)
                           = Risk_low) (replicate c (example_report Risk_critical) @ replicate h (example_report Risk_high)
              @ replicate m (example_report Risk_medium) @ replicate l (example_report Risk_low))) = l"
    by (simp add: count_replicate example_report_risk)
  then have reach: "\<exists>rs' :: RegulatoryReport list.
      length (filter (\<lambda>r. HolmDigitalInsight.diggRisk (RegulatoryReport.holmdigitalInsight r)
                         = Risk_critical) rs') = c \<and>
      length (filter (\<lambda>r. HolmDigitalInsight.diggRisk (RegulatoryReport.holmdigitalInsight r)
                         = Risk_high) rs') = h \<and>
      length (filter (\<lambda>r. HolmDigitalInsight.diggRisk (RegulatoryReport.holmdigitalInsight r)
                         = Risk_medium) rs') = m \<and>
      length (filter (\<lambda>r. HolmDigitalInsight.diggRisk (RegulatoryReport.holmdigitalInsight r)
                         = Risk_low) rs') = l"
    by blast
  show ?thesis
    by (intro conjI impI reach) (auto simp: generateResultPackage_def Let_def)
qed

text \<open>
  The scenario on the example data: the reports of one violation found by its id in a
  critical rule and two violations found nowhere (medium by default) score 65.
\<close>

theorem generateResultPackage_score_witness:
  "length (filter (\<lambda>r. HolmDigitalInsight.diggRisk (RegulatoryReport.holmdigitalInsight r)
                      = Risk_critical) (enrichResults example_db ''en'' \<lparr> violations = example_scored \<rparr>)) = 1 \<and>
   length (filter (\<lambda>r. HolmDigitalInsight.diggRisk (RegulatoryReport.holmdigitalInsight r)
                      = Risk_high) (enrichResults example_db ''en'' \<lparr> violations = example_scored \<rparr>)) = 0 \<and>
   length (filter (\<lambda>r. HolmDigitalInsight.diggRisk (RegulatoryReport.holmdigitalInsight r)
                      = Risk_medium) (enrichResults example_db ''en'' \<lparr> violations = example_scored \<rparr>)) = 2 \<and>
   length (filter (\<lambda>r. HolmDigitalInsight.diggRisk (RegulatoryReport.holmdigitalInsight r)
                      = Risk_low) (enrichResults example_db ''en'' \<lparr> violations = example_scored \<rparr>)) = 0 \<and>
   score (generateResultPackage ''https://example.com'' ''2026-01-01T00:00:00.000Z''
            (enrichResults example_db ''en'' \<lparr> violations = example_scored \<rparr>)) = 65"
proof -
  have counts: "length (filter (\<lambda>r. HolmDigitalInsight.diggRisk (RegulatoryReport.holmdigitalInsight r)
                         = Risk_critical) (enrichResults example_db ''en'' \<lparr> violations = example_scored \<rparr>)) = 1 \<and>
      length (filter (\<lambda>r. HolmDigitalInsight.diggRisk (RegulatoryReport.holmdigitalInsight r)
                         = Risk_high) (enrichResults example_db ''en'' \<lparr> violations = example_scored \<rparr>)) = 0 \<and>
      length (filter (\<lambda>r. HolmDigitalInsight.diggRisk (RegulatoryReport.holmdigitalInsight r)
                         = Risk_medium) (enrichResults example_db ''en'' \<lparr> violations = example_scored \<rparr>)) = 2 \<and>
      length (filter (\<lambda>r. HolmDigitalInsight.diggRisk (RegulatoryReport.holmdigitalInsight r)
                         = Risk_low) (enrichResults example_db ''en'' \<lparr> violations = example_scored \<rparr>)) = 0"
    by (simp add: enrichResults_def enrichViolation_def
        generateRegulatoryReport_def getConvergenceRule_def searchRulesByTags_def example_defs)
  with generateResultPackage_score [of "''https://example.com''" "''2026-01-01T00:00:00.000Z''"
            "(enrichResults example_db ''en'' \<lparr> violations = example_scored \<rparr>)" 1 0 2 0]
  show ?thesis by simp
qed

text \<open>
  C10. For every report list the four counts add up to the total:
  \<open>critical + high + medium + low = total\<close>. The counts read the \<open>diggRisk\<close> of the insight
  of a report, which is one of the four tiers, and in every report that the enrichment
  makes it is also the \<open>diggRisk\<close> of the report itself.
\<close>

theorem stats_tiers_partition_total:
  "critical (stats (generateResultPackage u t rs)) + high (stats (generateResultPackage u t rs))
     + medium (stats (generateResultPackage u t rs)) + low (stats (generateResultPackage u t rs))
     = total (stats (generateResultPackage u t rs)) \<and>
   RegulatoryReport.diggRisk (enrichViolation db lang violation)
     = HolmDigitalInsight.diggRisk (RegulatoryReport.holmdigitalInsight (enrichViolation db lang violation)) \<and>
   HolmDigitalInsight.diggRisk (RegulatoryReport.holmdigitalInsight (enrichViolation db lang violation))
     \<in> {Risk_low, Risk_medium, Risk_high, Risk_critical}"
proof -
  have "int (length (filter (\<lambda>r. HolmDigitalInsight.diggRisk (RegulatoryReport.holmdigitalInsight r) = Risk_critical) rs))
        + int (length (filter (\<lambda>r. HolmDigitalInsight.diggRisk (RegulatoryReport.holmdigitalInsight r) = Risk_high) rs))
        + int (length (filter (\<lambda>r. HolmDigitalInsight.diggRisk (RegulatoryReport.holmdigitalInsight r) = Risk_medium) rs))
        + int (length (filter (\<lambda>r. HolmDigitalInsight.diggRisk (RegulatoryReport.holmdigitalInsight r) = Risk_low) rs))
        = int (length rs)"
    using risk_partition [of "\<lambda>r. HolmDigitalInsight.diggRisk (RegulatoryReport.holmdigitalInsight r)" rs]
    by linarith
  then have sum: "critical (stats (generateResultPackage u t rs)) + high (stats (generateResultPackage u t rs))
     + medium (stats (generateResultPackage u t rs)) + low (stats (generateResultPackage u t rs))
     = total (stats (generateResultPackage u t rs))"
    by (simp add: generateResultPackage_def Let_def)
  have tier: "HolmDigitalInsight.diggRisk (RegulatoryReport.holmdigitalInsight (enrichViolation db lang violation))
     \<in> {Risk_low, Risk_medium, Risk_high, Risk_critical}"
    by (cases "HolmDigitalInsight.diggRisk (RegulatoryReport.holmdigitalInsight (enrichViolation db lang violation))") simp_all
  from sum enrichViolation_risk tier show ?thesis by blast
qed

section \<open>Properties of the enrichment\<close>

text \<open>
  C8. For every list of raw violations, the enrichment yields exactly one report per
  violation, in the order of the violations: the report list is the list of the reports
  of the single violations.
\<close>

theorem enrichResults_one_report_per_violation:
  "enrichResults db lang axeResults = map (enrichViolation db lang) (violations axeResults) \<and>
   length (enrichResults db lang axeResults) = length (violations axeResults)"
  by (simp add: enrichResults_def enrichLoop_map)

text \<open>
  C6. For every violation whose id is the \<open>ruleId\<close> of a rule of the table of the current
  language, the report is made from the rule that the lookup by id returns (the first rule
  of the table with that id; the matching rule itself in a table keyed by rule id), and it
  carries that rule's fields unchanged: \<open>ruleId\<close>, \<open>wcagCriteria\<close>,
  \<open>en301549Criteria\<close>, \<open>dosLagenReference\<close>, the \<open>diggRisk\<close> and \<open>eaaImpact\<close> of the rule's
  insight, \<open>remediation\<close>, \<open>testability\<close>, and the insight with every key as in the rule but
  \<open>reasoning\<close>, which is overlaid.
\<close>

theorem exact_match_round_trip:
  assumes "r \<in> set (getData db lang)" and "ConvergenceRule.ruleId r = id_axe violation"
  shows "\<exists>matched.
           getConvergenceRule db (id_axe violation) lang = Some matched \<and>
           matched \<in> set (getData db lang) \<and>
           (keyed_by_ruleId (getData db lang) \<longrightarrow> matched = r) \<and>
           RegulatoryReport.ruleId (enrichViolation db lang violation) = ConvergenceRule.ruleId matched \<and>
           RegulatoryReport.ruleId (enrichViolation db lang violation) = id_axe violation \<and>
           RegulatoryReport.wcagCriteria (enrichViolation db lang violation) = ConvergenceRule.wcagCriteria matched \<and>
           RegulatoryReport.en301549Criteria (enrichViolation db lang violation) = ConvergenceRule.en301549Criteria matched \<and>
           RegulatoryReport.dosLagenReference (enrichViolation db lang violation) = ConvergenceRule.dosLagenReference matched \<and>
           RegulatoryReport.diggRisk (enrichViolation db lang violation)
             = HolmDigitalInsight.diggRisk (ConvergenceRule.holmdigitalInsight matched) \<and>
           RegulatoryReport.eaaImpact (enrichViolation db lang violation)
             = HolmDigitalInsight.eaaImpact (ConvergenceRule.holmdigitalInsight matched) \<and>
           RegulatoryReport.remediation (enrichViolation db lang violation) = ConvergenceRule.remediation matched \<and>
           RegulatoryReport.testability (enrichViolation db lang violation) = ConvergenceRule.testability matched \<and>
           RegulatoryReport.holmdigitalInsight (enrichViolation db lang violation)
             = (ConvergenceRule.holmdigitalInsight matched)
                 \<lparr> otherKeys := (otherKeys (ConvergenceRule.holmdigitalInsight matched))
                                  (''reasoning'' \<mapsto> help_axe violation) \<rparr>"
proof -
  from assms obtain q where q: "find (\<lambda>c. ConvergenceRule.ruleId c = id_axe violation) (getData db lang) = Some q"
      "q \<in> set (getData db lang)" "ConvergenceRule.ruleId q = id_axe violation"
    using find_ruleId_in by blast
  have same: "keyed_by_ruleId (getData db lang) \<longrightarrow> q = r"
  proof
    assume "keyed_by_ruleId (getData db lang)"
    then have "distinct (map ConvergenceRule.ruleId (getData db lang))"
      by (simp add: keyed_by_ruleId_def)
    from find_ruleId_distinct [OF this assms(1)] q(1) assms(2) show "q = r" by simp
  qed
  have rep: "generateRegulatoryReport db (id_axe violation) lang \<noteq> None"
    by (simp add: generateRegulatoryReport_def getConvergenceRule_def q(1))
  show ?thesis
    apply (rule exI [of _ q])
    using q same
    by (simp add: enrichViolation_def generateRegulatoryReport_def getConvergenceRule_def)
qed

theorem exact_match_round_trip_witness:
  "RegulatoryReport.wcagCriteria (enrichViolation example_db ''en'' (example_violation ''image-alt'' [''cat.text-alternatives''])) = ''1.1.1'' \<and>
   RegulatoryReport.diggRisk (enrichViolation example_db ''en'' (example_violation ''image-alt'' [''cat.text-alternatives''])) = Risk_critical"
proof -
  have mem: "example_rule ''image-alt'' [''cat.text-alternatives'', ''wcag111''] Risk_critical \<in> set (getData example_db ''en'')"
    by (simp add: example_db_def getData_def)
  have rid: "ConvergenceRule.ruleId (example_rule ''image-alt'' [''cat.text-alternatives'', ''wcag111''] Risk_critical)
             = id_axe (example_violation ''image-alt'' [''cat.text-alternatives''])"
    by (simp add: example_rule_def example_violation_def)
  have dist: "keyed_by_ruleId (getData example_db ''en'')"
    by (simp add: keyed_by_ruleId_def example_defs)
  from exact_match_round_trip [OF mem rid] dist show ?thesis
    by (auto simp: example_rule_def)
qed

text \<open>
  C7. For every violation whose id is the \<open>ruleId\<close> of no rule and whose tags meet the tags
  of some rule, the report is made from the first rule of the table, in the table's own
  order, that shares a tag with the violation, and nothing else decides between the rules
  that share a tag: the report is the one of the rule that the lookup by that first rule's
  id returns, with the overlay of the scan data, and in a table keyed by rule id that rule
  is the first rule itself.
\<close>

theorem tag_fallback_first_rule:
  assumes "\<forall>r\<in>set (getData db lang). ConvergenceRule.ruleId r \<noteq> id_axe violation"
      and "find (\<lambda>rule. set (ConvergenceRule.tags rule) \<inter> set (AxeViolation.tags violation) \<noteq> {})
             (getData db lang) = Some first"
  shows "\<exists>used.
           getConvergenceRule db (ConvergenceRule.ruleId first) lang = Some used \<and>
           (keyed_by_ruleId (getData db lang) \<longrightarrow> used = first) \<and>
           enrichViolation db lang violation =
             \<lparr> RegulatoryReport.ruleId = ConvergenceRule.ruleId used,
               wcagCriteria = ConvergenceRule.wcagCriteria used,
               en301549Criteria = ConvergenceRule.en301549Criteria used,
               dosLagenReference = ConvergenceRule.dosLagenReference used,
               diggRisk = HolmDigitalInsight.diggRisk (ConvergenceRule.holmdigitalInsight used),
               eaaImpact = HolmDigitalInsight.eaaImpact (ConvergenceRule.holmdigitalInsight used),
               remediation = ConvergenceRule.remediation used,
               holmdigitalInsight =
                 (ConvergenceRule.holmdigitalInsight used)
                   \<lparr> otherKeys := (otherKeys (ConvergenceRule.holmdigitalInsight used))
                                    (''reasoning'' \<mapsto> help_axe violation) \<rparr>,
               testability = ConvergenceRule.testability used,
               failingNodes =
                 Some (map (\<lambda>node. \<lparr> FailingNode.html = AxeNode.html node,
                                       target = join '' '' (map selectorToString (AxeNode.target node)),
                                       failureSummary = AxeNode.failureSummary node \<rparr>)
                           (nodes violation)) \<rparr>"
proof -
  from assms(1) have none: "generateRegulatoryReport db (id_axe violation) lang = None"
    by (simp add: generateRegulatoryReport_none)
  from find_filter_first [OF assms(2)]
  have hit: "searchRulesByTags db (AxeViolation.tags violation) lang \<noteq> []"
       "searchRulesByTags db (AxeViolation.tags violation) lang ! 0 = first"
       "first \<in> set (getData db lang)"
    by (simp_all add: searchRulesByTags_filter)
  from find_ruleId_in [OF hit(3) refl]
  obtain used where again: "getConvergenceRule db (ConvergenceRule.ruleId first) lang = Some used"
    by (auto simp: getConvergenceRule_def)
  have same: "keyed_by_ruleId (getData db lang) \<longrightarrow> used = first"
  proof
    assume "keyed_by_ruleId (getData db lang)"
    then have "distinct (map ConvergenceRule.ruleId (getData db lang))"
      by (simp add: keyed_by_ruleId_def)
    from find_ruleId_distinct [OF this hit(3)] again show "used = first"
      by (simp add: getConvergenceRule_def)
  qed
  have gen: "generateRegulatoryReport db (ConvergenceRule.ruleId first) lang =
      Some \<lparr> RegulatoryReport.ruleId = ConvergenceRule.ruleId used,
             wcagCriteria = ConvergenceRule.wcagCriteria used,
             en301549Criteria = ConvergenceRule.en301549Criteria used,
             dosLagenReference = ConvergenceRule.dosLagenReference used,
             diggRisk = HolmDigitalInsight.diggRisk (ConvergenceRule.holmdigitalInsight used),
             eaaImpact = HolmDigitalInsight.eaaImpact (ConvergenceRule.holmdigitalInsight used),
             remediation = ConvergenceRule.remediation used,
             holmdigitalInsight = ConvergenceRule.holmdigitalInsight used,
             testability = ConvergenceRule.testability used,
             failingNodes = None \<rparr>"
    by (simp add: generateRegulatoryReport_def again)
  have "enrichViolation db lang violation =
             \<lparr> RegulatoryReport.ruleId = ConvergenceRule.ruleId used,
               wcagCriteria = ConvergenceRule.wcagCriteria used,
               en301549Criteria = ConvergenceRule.en301549Criteria used,
               dosLagenReference = ConvergenceRule.dosLagenReference used,
               diggRisk = HolmDigitalInsight.diggRisk (ConvergenceRule.holmdigitalInsight used),
               eaaImpact = HolmDigitalInsight.eaaImpact (ConvergenceRule.holmdigitalInsight used),
               remediation = ConvergenceRule.remediation used,
               holmdigitalInsight =
                 (ConvergenceRule.holmdigitalInsight used)
                   \<lparr> otherKeys := (otherKeys (ConvergenceRule.holmdigitalInsight used))
                                    (''reasoning'' \<mapsto> help_axe violation) \<rparr>,
               testability = ConvergenceRule.testability used,
               failingNodes =
                 Some (map (\<lambda>node. \<lparr> FailingNode.html = AxeNode.html node,
                                       target = join '' '' (map selectorToString (AxeNode.target node)),
                                       failureSummary = AxeNode.failureSummary node \<rparr>)
                           (nodes violation)) \<rparr>"
    using hit(1) by (simp add: enrichViolation_def none hit(2) gen)
  with again same show ?thesis by blast
qed

theorem tag_fallback_first_rule_witness:
  "RegulatoryReport.ruleId (enrichViolation example_db ''en'' (example_violation ''tabindex'' [''cat.keyboard''])) = ''keyboard-accessible'' \<and>
   RegulatoryReport.diggRisk (enrichViolation example_db ''en'' (example_violation ''tabindex'' [''cat.keyboard''])) = Risk_high"
proof -
  have noid: "\<forall>r\<in>set (getData example_db ''en''). ConvergenceRule.ruleId r \<noteq> id_axe (example_violation ''tabindex'' [''cat.keyboard''])"
    by (simp add: example_defs)
  have first: "find (\<lambda>rule. set (ConvergenceRule.tags rule) \<inter> set (AxeViolation.tags (example_violation ''tabindex'' [''cat.keyboard''])) \<noteq> {})
             (getData example_db ''en'') = Some (example_rule ''keyboard-accessible'' [''cat.keyboard'', ''wcag211''] Risk_high)"
    by (simp add: example_defs)
  have keyed: "keyed_by_ruleId (getData example_db ''en'')"
    by (simp add: keyed_by_ruleId_def example_defs)
  from tag_fallback_first_rule [OF noid first] keyed show ?thesis
    by (auto simp: example_rule_def)
qed

text \<open>
  C5. For every violation whose id is the \<open>ruleId\<close> of no rule and whose tags meet the tags
  of no rule, the report has the id of the violation, risk medium, impact medium,
  \<open>Unknown\<close> for the \<open>wcag\<close> and the \<open>en301549\<close> reference, the help text of the violation
  as the description of the remediation and the description of the violation as the
  technical guidance. Its national-law reference is the Swedish text that says that a
  manual assessment is required, 24 characters long; its testability flags are
  \<open>automated\<close> true and \<open>requiresManualCheck\<close> false.
\<close>

theorem synthetic_fallback_values:
  assumes "\<forall>r\<in>set (getData db lang).
             ConvergenceRule.ruleId r \<noteq> id_axe violation \<and>
             set (ConvergenceRule.tags r) \<inter> set (AxeViolation.tags violation) = {}"
  shows "RegulatoryReport.ruleId 
           (enrichViolation db lang violation) = id_axe violation \<and>
         RegulatoryReport.diggRisk 
           (enrichViolation db lang violation) = Risk_medium \<and>
         RegulatoryReport.eaaImpact 
           (enrichViolation db lang violation) = Impact_medium \<and>
         HolmDigitalInsight.diggRisk (RegulatoryReport.holmdigitalInsight 
           (enrichViolation db lang violation)) = Risk_medium \<and>
         HolmDigitalInsight.eaaImpact (RegulatoryReport.holmdigitalInsight 
           (enrichViolation db lang violation)) = Impact_medium \<and>
         RegulatoryReport.wcagCriteria 
           (enrichViolation db lang violation) = ''Unknown'' \<and>
         RegulatoryReport.en301549Criteria 
           (enrichViolation db lang violation) = ''Unknown'' \<and>
         Remediation.description (RegulatoryReport.remediation 
           (enrichViolation db lang violation)) = help_axe violation \<and>
         technicalGuidance (RegulatoryReport.remediation 
           (enrichViolation db lang violation)) = AxeViolation.description violation \<and>
         RegulatoryReport.dosLagenReference 
           (enrichViolation db lang violation) = 
           ''Kr'' @ [CHR 0xE4] @ ''ver manuell bed'' @ [CHR 0xF6] @ ''mning'' \<and>
         length (RegulatoryReport.dosLagenReference 
           (enrichViolation db lang violation)) = 24 \<and>
         automated (RegulatoryReport.testability 
           (enrichViolation db lang violation)) = True \<and>
         requiresManualCheck (RegulatoryReport.testability 
           (enrichViolation db lang violation)) = False"
proof -
  from assms have none: "generateRegulatoryReport db (id_axe violation) lang = None"
    by (simp add: generateRegulatoryReport_none)
  from assms have "filter (\<lambda>rule. set (ConvergenceRule.tags rule) \<inter> set (AxeViolation.tags violation) \<noteq> {}) (getData db lang) = []"
    by (simp add: filter_empty_conv)
  then have empty: "searchRulesByTags db (AxeViolation.tags violation) lang = []"
    by (simp add: searchRulesByTags_filter)
  show ?thesis
    by (simp add: enrichViolation_def none empty manual_assessment_text_def)
qed

theorem synthetic_fallback_values_witness:
  "RegulatoryReport.diggRisk 
       (enrichViolation example_db ''en'' (example_violation ''unmapped-rule'' [''best-practice''])) = Risk_medium \<and>
   RegulatoryReport.wcagCriteria 
       (enrichViolation example_db ''en'' (example_violation ''unmapped-rule'' [''best-practice''])) = ''Unknown'' \<and>
   Remediation.description (RegulatoryReport.remediation 
       (enrichViolation example_db ''en'' (example_violation ''unmapped-rule'' [''best-practice'']))) = ''Elements must meet the rule'' \<and>
   RegulatoryReport.dosLagenReference 
       (enrichViolation example_db ''en'' (example_violation ''unmapped-rule'' [''best-practice''])) = 
           ''Kr'' @ [CHR 0xE4] @ ''ver manuell bed'' @ [CHR 0xF6] @ ''mning'' \<and>
   automated (RegulatoryReport.testability 
       (enrichViolation example_db ''en'' (example_violation ''unmapped-rule'' [''best-practice'']))) = True"
proof -
  have "\<forall>r\<in>set (getData example_db ''en'').
             ConvergenceRule.ruleId r \<noteq> id_axe (example_violation ''unmapped-rule'' [''best-practice'']) \<and>
             set (ConvergenceRule.tags r) \<inter> set (AxeViolation.tags (example_violation ''unmapped-rule'' [''best-practice''])) = {}"
    by (simp add: example_defs)
  from synthetic_fallback_values [OF this] show ?thesis
    by (simp add: example_violation_def)
qed

text \<open>
  The statement with the flag fails: a violation that no rule of the example database
  matches by id or by tag gets a report whose \<open>requiresManualCheck\<close> is false and whose
  \<open>automated\<close> is true.
\<close>

theorem synthetic_report_not_flagged_for_manual_check:
  "generateRegulatoryReport example_db
       (id_axe (example_violation ''unmapped-rule'' [''best-practice''])) ''en'' = None \<and>
   searchRulesByTags example_db
       (AxeViolation.tags (example_violation ''unmapped-rule'' [''best-practice''])) ''en'' = [] \<and>
   requiresManualCheck (RegulatoryReport.testability 
       (enrichViolation example_db ''en'' (example_violation ''unmapped-rule'' [''best-practice'']))) = False \<and>
   automated (RegulatoryReport.testability 
       (enrichViolation example_db ''en'' (example_violation ''unmapped-rule'' [''best-practice'']))) = True"
  by (simp add: enrichViolation_def Let_def generateRegulatoryReport_def getConvergenceRule_def
      searchRulesByTags_def example_defs)

text \<open>
  C4. On the two paths that find a rule (by id, or by a shared tag), the insight of the
  report has the key \<open>reasoning\<close> with the help text of the violation, and the report has
  one failing-node entry per node of the violation, in order, each with the markup of the
  node, its locator joined by spaces, and its failure summary, none of them shortened. On
  the path that finds no rule, the insight of the report has no \<open>reasoning\<close> key: the help
  text is its \<open>swedishInterpretation\<close> and the description of its remediation.
\<close>

theorem enrich_reasoning_and_failing_nodes:
  "((\<exists>r\<in>set (getData db lang).
        ConvergenceRule.ruleId r = id_axe violation \<or>
        set (ConvergenceRule.tags r) \<inter> set (AxeViolation.tags violation) \<noteq> {})
    \<longrightarrow> otherKeys (RegulatoryReport.holmdigitalInsight (enrichViolation db lang violation)) ''reasoning''
          = Some (help_axe violation) \<and>
        failingNodes (enrichViolation db lang violation)
          = Some (map (\<lambda>node. \<lparr> FailingNode.html = AxeNode.html node,
                                  target = join '' '' (map selectorToString (AxeNode.target node)),
                                  failureSummary = AxeNode.failureSummary node \<rparr>)
                      (nodes violation)) \<and>
        map_option length (failingNodes (enrichViolation db lang violation))
          = Some (length (nodes violation))) \<and>
   (\<not> (\<exists>r\<in>set (getData db lang).
        ConvergenceRule.ruleId r = id_axe violation \<or>
        set (ConvergenceRule.tags r) \<inter> set (AxeViolation.tags violation) \<noteq> {})
    \<longrightarrow> otherKeys (RegulatoryReport.holmdigitalInsight (enrichViolation db lang violation)) = Map.empty \<and>
        swedishInterpretation (RegulatoryReport.holmdigitalInsight (enrichViolation db lang violation))
          = Some (help_axe violation) \<and>
        Remediation.description (RegulatoryReport.remediation (enrichViolation db lang violation))
          = help_axe violation)"
proof (intro conjI impI)
  assume "\<not> (\<exists>r\<in>set (getData db lang).
        ConvergenceRule.ruleId r = id_axe violation \<or>
        set (ConvergenceRule.tags r) \<inter> set (AxeViolation.tags violation) \<noteq> {})"
  then have none: "generateRegulatoryReport db (id_axe violation) lang = None"
    and empty: "searchRulesByTags db (AxeViolation.tags violation) lang = []"
    by (simp_all add: generateRegulatoryReport_none searchRulesByTags_filter filter_empty_conv)
  show "otherKeys (RegulatoryReport.holmdigitalInsight (enrichViolation db lang violation)) = Map.empty"
    and "swedishInterpretation (RegulatoryReport.holmdigitalInsight (enrichViolation db lang violation))
          = Some (help_axe violation)"
    and "Remediation.description (RegulatoryReport.remediation (enrichViolation db lang violation))
          = help_axe violation"
    by (simp_all add: enrichViolation_def none empty)
next
  assume hit: "\<exists>r\<in>set (getData db lang).
        ConvergenceRule.ruleId r = id_axe violation \<or>
        set (ConvergenceRule.tags r) \<inter> set (AxeViolation.tags violation) \<noteq> {}"
  have found: "\<exists>rep. (let report0 = generateRegulatoryReport db (id_axe violation) lang
          in if report0 = None then
               (let matchingRules = searchRulesByTags db (AxeViolation.tags violation) lang
                in if length matchingRules > 0
                   then generateRegulatoryReport db (ConvergenceRule.ruleId (matchingRules ! 0)) lang
                   else report0)
             else report0) = Some rep"
  proof (cases "generateRegulatoryReport db (id_axe violation) lang")
    case (Some a)
    then show ?thesis by simp
  next
    case None
    then have noid: "\<forall>r\<in>set (getData db lang). ConvergenceRule.ruleId r \<noteq> id_axe violation"
      by (auto simp: generateRegulatoryReport_def getConvergenceRule_def find_None_iff split: option.splits)
    with hit obtain r where r: "r \<in> set (getData db lang)"
        "set (ConvergenceRule.tags r) \<inter> set (AxeViolation.tags violation) \<noteq> {}"
      by blast
    then have ne: "searchRulesByTags db (AxeViolation.tags violation) lang \<noteq> []"
      by (auto simp: searchRulesByTags_filter filter_empty_conv)
    then have "searchRulesByTags db (AxeViolation.tags violation) lang ! 0
                 \<in> set (searchRulesByTags db (AxeViolation.tags violation) lang)"
      by (simp add: nth_mem)
    then have mem: "searchRulesByTags db (AxeViolation.tags violation) lang ! 0 \<in> set (getData db lang)"
      by (simp add: searchRulesByTags_filter)
    from find_ruleId_in [OF mem refl]
    obtain q where "getConvergenceRule db
          (ConvergenceRule.ruleId (searchRulesByTags db (AxeViolation.tags violation) lang ! 0)) lang = Some q"
      by (auto simp: getConvergenceRule_def)
    then show ?thesis
      using None ne by (simp add: generateRegulatoryReport_def)
  qed
  then obtain rep where rep: "(let report0 = generateRegulatoryReport db (id_axe violation) lang
          in if report0 = None then
               (let matchingRules = searchRulesByTags db (AxeViolation.tags violation) lang
                in if length matchingRules > 0
                   then generateRegulatoryReport db (ConvergenceRule.ruleId (matchingRules ! 0)) lang
                   else report0)
             else report0) = Some rep" ..
  have eq: "enrichViolation db lang violation =
      rep \<lparr> RegulatoryReport.holmdigitalInsight :=
                   (RegulatoryReport.holmdigitalInsight rep)
                     \<lparr> otherKeys :=
                         (otherKeys (RegulatoryReport.holmdigitalInsight rep))
                           (''reasoning'' \<mapsto> help_axe violation) \<rparr>,
                 failingNodes :=
                   Some (map (\<lambda>node. \<lparr> FailingNode.html = AxeNode.html node,
                                         target = join '' '' (map selectorToString (AxeNode.target node)),
                                         failureSummary = AxeNode.failureSummary node \<rparr>)
                             (nodes violation)) \<rparr>"
    using rep unfolding enrichViolation_def Let_def by simp
  show "otherKeys (RegulatoryReport.holmdigitalInsight (enrichViolation db lang violation)) ''reasoning''
          = Some (help_axe violation)"
    and "failingNodes (enrichViolation db lang violation)
          = Some (map (\<lambda>node. \<lparr> FailingNode.html = AxeNode.html node,
                                  target = join '' '' (map selectorToString (AxeNode.target node)),
                                  failureSummary = AxeNode.failureSummary node \<rparr>)
                      (nodes violation))"
    and "map_option length (failingNodes (enrichViolation db lang violation))
          = Some (length (nodes violation))"
    by (simp_all add: eq)
qed

theorem enrich_reasoning_and_failing_nodes_witness:
  "otherKeys (RegulatoryReport.holmdigitalInsight (enrichViolation example_db ''en'' (example_violation ''tabindex'' [''cat.keyboard'']))) ''reasoning''
     = Some ''Elements must meet the rule'' \<and>
   failingNodes (enrichViolation example_db ''en'' (example_violation ''tabindex'' [''cat.keyboard'']))
     = Some [\<lparr> FailingNode.html = ''<img src=a.png>'', target = ''#main my-widget,img'',
               failureSummary = ''Fix any of the following'' \<rparr>]"
proof -
  have "\<exists>r\<in>set (getData example_db ''en'').
        ConvergenceRule.ruleId r = id_axe (example_violation ''tabindex'' [''cat.keyboard'']) \<or>
        set (ConvergenceRule.tags r) \<inter> set (AxeViolation.tags (example_violation ''tabindex'' [''cat.keyboard''])) \<noteq> {}"
    by (simp add: example_defs)
  with enrich_reasoning_and_failing_nodes [of example_db "''en''" "example_violation ''tabindex'' [''cat.keyboard'']"]
  show ?thesis by (simp add: example_violation_def)
qed

text \<open>
  The statement for every path fails on the third one: a violation with one node that no
  rule of the example database matches by id or by tag gets a report without the key
  \<open>reasoning\<close> and without failing nodes.
\<close>

theorem synthetic_report_lacks_reasoning_and_nodes:
  "otherKeys (RegulatoryReport.holmdigitalInsight
       (enrichViolation example_db ''en'' (example_violation ''unmapped-rule'' [''best-practice''])))
     ''reasoning'' = None \<and>
   failingNodes (enrichViolation example_db ''en'' (example_violation ''unmapped-rule'' [''best-practice''])) = None \<and>
   length (nodes (example_violation ''unmapped-rule'' [''best-practice''])) = 1 \<and>
   generateRegulatoryReport example_db (id_axe (example_violation ''unmapped-rule'' [''best-practice''])) ''en'' = None \<and>
   searchRulesByTags example_db (AxeViolation.tags (example_violation ''unmapped-rule'' [''best-practice''])) ''en'' = []"
  by (simp add: enrichViolation_def Let_def generateRegulatoryReport_def getConvergenceRule_def
      searchRulesByTags_def example_defs)

text \<open>
  The scenario of three violations: one found by its id, one by a tag, one by neither make
  three reports, in that order, and a total of 3.
\<close>

lemma scenario_three_violations:
  "map RegulatoryReport.ruleId (enrichResults example_db ''en'' \<lparr> violations = example_violations \<rparr>)
     = [''image-alt'', ''keyboard-accessible'', ''unmapped-rule''] \<and>
   total (stats (generateResultPackage ''https://example.com'' ''2026-01-01T00:00:00.000Z''
            (enrichResults example_db ''en'' \<lparr> violations = example_violations \<rparr>))) = 3"
  by (simp add: generateResultPackage_def Let_def enrichResults_def enrichViolation_def
      generateRegulatoryReport_def getConvergenceRule_def searchRulesByTags_def example_defs)

section \<open>Properties of the virtual DOM builder\<close>

lemma beyond_maxDepth_Suc: "\<not> beyond_maxDepth config (Suc d) \<Longrightarrow> \<not> beyond_maxDepth config d"
  by (auto simp: beyond_maxDepth_def split: option.splits)

lemma push_child_fields [simp]:
  "nodeId (push_child v c) = nodeId v" "tagName (push_child v c) = tagName v"
  "isShadowRoot (push_child v c) = isShadowRoot v" "shadowMode (push_child v c) = shadowMode v"
  "parentId (push_child v c) = parentId v" "children (push_child v c) = children v @ [c]"
  by (simp_all add: push_child_def)

lemma set_shadowMode_fields [simp]:
  "nodeId (set_shadowMode v m) = nodeId v" "tagName (set_shadowMode v m) = tagName v"
  "isShadowRoot (set_shadowMode v m) = isShadowRoot v" "shadowMode (set_shadowMode v m) = m"
  "parentId (set_shadowMode v m) = parentId v" "children (set_shadowMode v m) = children v"
  by (simp_all add: set_shadowMode_def)

lemma forEachChild_fields:
  "forEachChild config kids v d c = (r, c') \<Longrightarrow>
   nodeId r = nodeId v \<and> tagName r = tagName v \<and> isShadowRoot r = isShadowRoot v \<and>
   shadowMode r = shadowMode v \<and> parentId r = parentId v"
proof (induction kids arbitrary: v c)
  case Nil
  then show ?case by simp
next
  case (Cons k kids)
  show ?case
  proof (cases "nodeType k = ELEMENT_NODE")
    case False
    with Cons.prems Cons.IH show ?thesis by simp
  next
    case True
    obtain cv c1 where t: "traverse config k (Some v) (d + 1) c = (cv, c1)"
      by (cases "traverse config k (Some v) (d + 1) c")
    show ?thesis
    proof (cases cv)
      case None
      with Cons.prems True t have "forEachChild config kids v d c1 = (r, c')" by simp
      from Cons.IH [OF this] show ?thesis .
    next
      case (Some a)
      with Cons.prems True t have "forEachChild config kids (push_child v a) d c1 = (r, c')" by simp
      from Cons.IH [OF this] show ?thesis by simp
    qed
  qed
qed

lemma traverse_shape:
  assumes "nodeType node = ELEMENT_NODE \<or> nodeType node = DOCUMENT_FRAGMENT_NODE"
      and "\<not> beyond_maxDepth config d"
  shows "\<exists>v1 v2 c1 c2.
           children v1 = [] \<and>
           isShadowRoot v1 = Some (nodeType node = DOCUMENT_FRAGMENT_NODE) \<and>
           tagName v1 = (if nodeType node = DOCUMENT_FRAGMENT_NODE then ''#shadow-root''
                         else toLowerCase (dom_tagName node)) \<and>
           shadowMode v1 = (if nodeType node = DOCUMENT_FRAGMENT_NODE then mode node else None) \<and>
           parentId v1 = map_option nodeId p \<and>
           forEachChild config (childNodes node) v1 d c1 = (v2, c2) \<and>
           traverse config node p d c =
             (if nodeType node \<noteq> DOCUMENT_FRAGMENT_NODE \<and> shadowRoot node \<noteq> None then
                (case traverse config (the (shadowRoot node)) (Some v2) (d + 1) c2 of
                   (None, c3) \<Rightarrow> (Some v2, c3)
                 | (Some shadowVNode, c3) \<Rightarrow> (Some (push_child v2 shadowVNode), c3))
              else (Some v2, c2))"
proof -
  let ?isShadow = "nodeType node = DOCUMENT_FRAGMENT_NODE"
  obtain newId c1 where g: "generateId c = (newId, c1)" by (cases "generateId c")
  define v0 where "v0 = VirtualNode newId
        (if ?isShadow then ''#shadow-root'' else toLowerCase (dom_tagName node))
        (if \<not> ?isShadow then getAttributes node else Map.empty) [] (map_option nodeId p) (Some ?isShadow) None
        (if \<not> ?isShadow then getBoundingClientRect node else \<lparr> x = 0, y = 0, width = 0, height = 0 \<rparr>)
        (if \<not> ?isShadow then
                  (case includeComputedStyle config of
                     None \<Rightarrow> None
                   | Some props \<Rightarrow>
                       Some (fold (\<lambda>prop cs. cs(prop \<mapsto> getPropertyValue (getComputedStyle node) prop))
                                  props Map.empty))
                else None)
        (if dom_textContent node = [] then None else Some (dom_textContent node))"
  define v1 where "v1 = (if ?isShadow \<and> mode node \<noteq> None then set_shadowMode v0 (mode node) else v0)"
  obtain v2 c2 where f: "forEachChild config (childNodes node) v1 d c1 = (v2, c2)"
    by (cases "forEachChild config (childNodes node) v1 d c1")
  have v1f: "children v1 = []" "isShadowRoot v1 = Some ?isShadow"
      "tagName v1 = (if ?isShadow then ''#shadow-root'' else toLowerCase (dom_tagName node))"
      "shadowMode v1 = (if ?isShadow then mode node else None)"
      "parentId v1 = map_option nodeId p"
    by (auto simp: v1_def v0_def)
  have unfold: "traverse config node p d c =
      (if \<not> ?isShadow \<and> shadowRoot node \<noteq> None then
              (case traverse config (the (shadowRoot node)) (Some v2) (d + 1) c2 of
                 (None, c3) \<Rightarrow> (Some v2, c3)
               | (Some shadowVNode, c3) \<Rightarrow> (Some (push_child v2 shadowVNode), c3))
            else (Some v2, c2))"
    using assms g f
    by (subst traverse.simps) (auto simp: Let_def v1_def v0_def)
  from v1f f unfold show ?thesis by blast
qed

lemma traverse_emits:
  assumes "nodeType node = ELEMENT_NODE \<or> nodeType node = DOCUMENT_FRAGMENT_NODE"
      and "\<not> beyond_maxDepth config d"
  shows "\<exists>v c'. traverse config node p d c = (Some v, c') \<and>
           isShadowRoot v = Some (nodeType node = DOCUMENT_FRAGMENT_NODE) \<and>
           tagName v = (if nodeType node = DOCUMENT_FRAGMENT_NODE then ''#shadow-root''
                        else toLowerCase (dom_tagName node)) \<and>
           shadowMode v = (if nodeType node = DOCUMENT_FRAGMENT_NODE then mode node else None) \<and>
           parentId v = map_option nodeId p"
proof -
  from traverse_shape [OF assms, of p c] obtain v1 v2 c1 c2 where
    v1: "isShadowRoot v1 = Some (nodeType node = DOCUMENT_FRAGMENT_NODE)"
        "tagName v1 = (if nodeType node = DOCUMENT_FRAGMENT_NODE then ''#shadow-root''
                         else toLowerCase (dom_tagName node))"
        "shadowMode v1 = (if nodeType node = DOCUMENT_FRAGMENT_NODE then mode node else None)"
        "parentId v1 = map_option nodeId p"
    and f: "forEachChild config (childNodes node) v1 d c1 = (v2, c2)"
    and t: "traverse config node p d c =
             (if nodeType node \<noteq> DOCUMENT_FRAGMENT_NODE \<and> shadowRoot node \<noteq> None then
                (case traverse config (the (shadowRoot node)) (Some v2) (d + 1) c2 of
                   (None, c3) \<Rightarrow> (Some v2, c3)
                 | (Some shadowVNode, c3) \<Rightarrow> (Some (push_child v2 shadowVNode), c3))
              else (Some v2, c2))"
    by blast
  from forEachChild_fields [OF f] v1
  have v2f: "isShadowRoot v2 = Some (nodeType node = DOCUMENT_FRAGMENT_NODE)"
      "tagName v2 = (if nodeType node = DOCUMENT_FRAGMENT_NODE then ''#shadow-root'' else toLowerCase (dom_tagName node))"
      "shadowMode v2 = (if nodeType node = DOCUMENT_FRAGMENT_NODE then mode node else None)"
      "parentId v2 = map_option nodeId p"
    by simp_all
  show ?thesis
    unfolding t using v2f
    by (auto split: prod.splits option.splits)
qed

lemma traverse_pruned:
  "beyond_maxDepth config d \<Longrightarrow> traverse config node p d c = (None, c)"
  by (subst traverse.simps) simp

lemma forEachChild_pruned:
  "beyond_maxDepth config (Suc d) \<Longrightarrow> forEachChild config kids v d c = (v, c)"
  by (induction kids) (simp_all add: traverse_pruned)

lemma forEachChild_children:
  assumes "\<not> beyond_maxDepth config (Suc d)"
  shows "forEachChild config kids v d c = (r, c') \<Longrightarrow>
   \<exists>new. children r = children v @ new \<and>
     map tagName new = map (\<lambda>e. toLowerCase (dom_tagName e)) (filter (\<lambda>k. nodeType k = ELEMENT_NODE) kids) \<and>
     (\<forall>n\<in>set new. isShadowRoot n = Some False \<and> parentId n = Some (nodeId v))"
proof (induction kids arbitrary: v c)
  case Nil
  then show ?case by simp
next
  case (Cons k kids)
  show ?case
  proof (cases "nodeType k = ELEMENT_NODE")
    case False
    with Cons.prems have "forEachChild config kids v d c = (r, c')" by simp
    from Cons.IH [OF this] False show ?thesis by simp
  next
    case True
    from traverse_emits [of k config "Suc d" "Some v" c] True assms
    obtain a c1 where t: "traverse config k (Some v) (d + 1) c = (Some a, c1)"
      and a: "isShadowRoot a = Some False" "tagName a = toLowerCase (dom_tagName k)"
             "parentId a = Some (nodeId v)"
      by (auto simp: ELEMENT_NODE_def DOCUMENT_FRAGMENT_NODE_def)
    with Cons.prems True have "forEachChild config kids (push_child v a) d c1 = (r, c')" by simp
    from Cons.IH [OF this] obtain new where new: "children r = children (push_child v a) @ new"
      "map tagName new = map (\<lambda>e. toLowerCase (dom_tagName e)) (filter (\<lambda>k. nodeType k = ELEMENT_NODE) kids)"
      "\<forall>n\<in>set new. isShadowRoot n = Some False \<and> parentId n = Some (nodeId (push_child v a))"
      by blast
    show ?thesis
      apply (rule exI [of _ "a # new"])
      using new a True by simp
  qed
qed

text \<open>
  C9. For every element that \<open>traverse\<close> emits (it is not beyond \<open>maxDepth\<close>) and whose
  \<open>shadowRoot\<close> property holds a document fragment: when the next depth is within
  \<open>maxDepth\<close> (or \<open>maxDepth\<close> is unset or 0), the node of the element has as children the
  nodes of its light-DOM element children, in order and none of them a shadow root,
  followed by exactly one node for the shadow root, tagged \<open>#shadow-root\<close>, flagged
  \<open>isShadowRoot\<close>, with the mode of the shadow root and the element's node as parent. When
  the next depth is beyond \<open>maxDepth\<close>, the node of the element has no child at all, so no
  marker either.
\<close>

theorem shadow_host_marker_last:
  assumes "nodeType host = ELEMENT_NODE" and "shadowRoot host = Some sr"
      and "nodeType sr = DOCUMENT_FRAGMENT_NODE" and "\<not> beyond_maxDepth config depth"
  shows "(\<not> beyond_maxDepth config (depth + 1) \<longrightarrow>
           (\<exists>v light marker c.
              traverse config host parent depth counter = (Some v, c) \<and>
              children v = light @ [marker] \<and>
              map tagName light = map (\<lambda>e. toLowerCase (dom_tagName e))
                                      (filter (\<lambda>k. nodeType k = ELEMENT_NODE) (childNodes host)) \<and>
              (\<forall>l\<in>set light. isShadowRoot l = Some False) \<and>
              isShadowRoot marker = Some True \<and>
              tagName marker = ''#shadow-root'' \<and>
              shadowMode marker = mode sr \<and>
              parentId marker = Some (nodeId v))) \<and>
         (beyond_maxDepth config (depth + 1) \<longrightarrow>
           (\<exists>v c. traverse config host parent depth counter = (Some v, c) \<and> children v = []))"
proof -
  from assms(1) have el: "nodeType host \<noteq> DOCUMENT_FRAGMENT_NODE"
    by (simp add: ELEMENT_NODE_def DOCUMENT_FRAGMENT_NODE_def)
  from traverse_shape [of host config depth parent counter] assms(1,4) obtain v1 v2 c1 c2 where
    v1: "children v1 = []"
    and f: "forEachChild config (childNodes host) v1 depth c1 = (v2, c2)"
    and t: "traverse config host parent depth counter =
             (if nodeType host \<noteq> DOCUMENT_FRAGMENT_NODE \<and> shadowRoot host \<noteq> None then
                (case traverse config (the (shadowRoot host)) (Some v2) (depth + 1) c2 of
                   (None, c3) \<Rightarrow> (Some v2, c3)
                 | (Some shadowVNode, c3) \<Rightarrow> (Some (push_child v2 shadowVNode), c3))
              else (Some v2, c2))"
    by blast
  from t el assms(2) have t': "traverse config host parent depth counter =
          (case traverse config sr (Some v2) (depth + 1) c2 of
                   (None, c3) \<Rightarrow> (Some v2, c3)
                 | (Some shadowVNode, c3) \<Rightarrow> (Some (push_child v2 shadowVNode), c3))"
    by simp
  show ?thesis
  proof (intro conjI impI)
    assume within: "\<not> beyond_maxDepth config (depth + 1)"
    then have within': "\<not> beyond_maxDepth config (Suc depth)" by simp
    from forEachChild_children [OF within' f] v1 obtain light where
      light: "children v2 = light"
        "map tagName light = map (\<lambda>e. toLowerCase (dom_tagName e))
                                      (filter (\<lambda>k. nodeType k = ELEMENT_NODE) (childNodes host))"
        "\<forall>l\<in>set light. isShadowRoot l = Some False"
      by auto
    from traverse_emits [of sr config "depth + 1" "Some v2" c2] assms(3) within
    obtain m c3 where m: "traverse config sr (Some v2) (depth + 1) c2 = (Some m, c3)"
        "isShadowRoot m = Some True" "tagName m = ''#shadow-root''" "shadowMode m = mode sr"
        "parentId m = Some (nodeId v2)"
      by auto
    from t' m(1) have "traverse config host parent depth counter = (Some (push_child v2 m), c3)"
      by simp
    with light m show "\<exists>v light marker c.
              traverse config host parent depth counter = (Some v, c) \<and>
              children v = light @ [marker] \<and>
              map tagName light = map (\<lambda>e. toLowerCase (dom_tagName e))
                                      (filter (\<lambda>k. nodeType k = ELEMENT_NODE) (childNodes host)) \<and>
              (\<forall>l\<in>set light. isShadowRoot l = Some False) \<and>
              isShadowRoot marker = Some True \<and>
              tagName marker = ''#shadow-root'' \<and>
              shadowMode marker = mode sr \<and>
              parentId marker = Some (nodeId v)"
      by (intro exI [of _ "push_child v2 m"] exI [of _ light] exI [of _ m] exI [of _ c3]) simp
  next
    assume beyond: "beyond_maxDepth config (depth + 1)"
    then have "forEachChild config (childNodes host) v1 depth c1 = (v1, c1)"
      by (simp add: forEachChild_pruned)
    with f have "v2 = v1" by simp
    with t' beyond v1 show "\<exists>v c. traverse config host parent depth counter = (Some v, c) \<and> children v = []"
      by (simp add: traverse_pruned)
  qed
qed

theorem shadow_host_marker_last_witness:
  "\<exists>v light marker c.
      traverse \<lparr> includeComputedStyle = None, maxDepth = None \<rparr> example_host None 0 0 = (Some v, c) \<and>
      children v = light @ [marker] \<and>
      map tagName light = [''p''] \<and>
      isShadowRoot marker = Some True \<and>
      tagName marker = ''#shadow-root'' \<and>
      shadowMode marker = Some Mode_open"
proof -
  have h1: "nodeType example_host = ELEMENT_NODE" by (simp add: example_host_def)
  have h2: "shadowRoot example_host = Some example_shadow" by (simp add: example_host_def)
  have h3: "nodeType example_shadow = DOCUMENT_FRAGMENT_NODE" by (simp add: example_shadow_def)
  have h4: "\<not> beyond_maxDepth \<lparr> includeComputedStyle = None, maxDepth = None \<rparr> 0"
    by (simp add: beyond_maxDepth_def)
  have h5: "\<not> beyond_maxDepth \<lparr> includeComputedStyle = None, maxDepth = None \<rparr> (0 + 1)"
    by (simp add: beyond_maxDepth_def)
  have k: "map (\<lambda>e. toLowerCase (dom_tagName e))
              (filter (\<lambda>k. nodeType k = ELEMENT_NODE) (childNodes example_host)) = [''p'']"
    by (simp add: example_host_def toLowerCase_def upperCaseLetters_def lowerCaseLetters_def ELEMENT_NODE_def)
  have m: "mode example_shadow = Some Mode_open" by (simp add: example_shadow_def)
  from shadow_host_marker_last [OF h1 h2 h3 h4, of None 0, THEN conjunct1, THEN mp, OF h5]
  obtain v light marker c where
    "traverse \<lparr> includeComputedStyle = None, maxDepth = None \<rparr> example_host None 0 0 = (Some v, c)"
    "children v = light @ [marker]"
    "map tagName light = map (\<lambda>e. toLowerCase (dom_tagName e))
              (filter (\<lambda>k. nodeType k = ELEMENT_NODE) (childNodes example_host))"
    "isShadowRoot marker = Some True" "tagName marker = ''#shadow-root''"
    "shadowMode marker = mode example_shadow"
    by (elim exE conjE)
  then show ?thesis
    unfolding k m by (intro exI conjI)
qed

text \<open>
  The statement for every shadow host fails at the depth limit: with \<open>maxDepth = 1\<close> the
  custom element of the example page, at depth 1, is emitted, and its shadow root, at
  depth 2, is not.
\<close>

theorem shadow_host_at_depth_limit_has_no_marker:
  "shadowRoot example_host = Some example_shadow \<and>
   map tagName (children (the (build \<lparr> includeComputedStyle = None, maxDepth = Some 1 \<rparr> (Some example_page))))
     = [''my-widget''] \<and>
   map children (children (the (build \<lparr> includeComputedStyle = None, maxDepth = Some 1 \<rparr> (Some example_page))))
     = [[]]"
  by (simp add: build_def example_dom_defs traverse.simps beyond_maxDepth_def ELEMENT_NODE_def
      DOCUMENT_FRAGMENT_NODE_def Let_def generateId_def toLowerCase_def upperCaseLetters_def lowerCaseLetters_def getAttributes_def)

section \<open>Properties of a scan\<close>

lemma fold_max_ge: "a \<le> fold max ps (a::nat)"
proof (induction ps arbitrary: a)
  case Nil
  show ?case by simp
next
  case (Cons p ps)
  have "a \<le> max p a" by simp
  also have "max p a \<le> fold max ps (max p a)" by (rule Cons.IH)
  finally show ?case by simp
qed

lemma fold_max_member: "p \<in> set ps \<Longrightarrow> p \<le> fold max ps (a::nat)"
proof (induction ps arbitrary: a)
  case Nil
  then show ?case by simp
next
  case (Cons q ps)
  show ?case
  proof (cases "p = q")
    case True
    have "p \<le> max q a" using True by simp
    also have "max q a \<le> fold max ps (max q a)" by (rule fold_max_ge)
    finally show ?thesis by simp
  next
    case False
    with Cons.prems have "p \<in> set ps" by simp
    from Cons.IH [OF this] show ?thesis by simp
  qed
qed

lemma fresh_handle_new: "fresh_handle ps \<notin> set ps"
proof
  assume "fresh_handle ps \<in> set ps"
  from fold_max_member [OF this, of 0] show False by (simp add: fresh_handle_def)
qed

lemma close_returns:
  "close_result env = None \<Longrightarrow>
   close env st =
     (Inr (), case this_browser st of
                None \<Rightarrow> st
              | Some b \<Rightarrow> (emit (BrowserClose b) st)
                           \<lparr> processes := removeAll b (processes st), this_browser := None \<rparr>)"
  by (simp add: close_def emit_def Let_def split: option.splits)

lemma close_this_browser: "close_result env = None \<Longrightarrow> this_browser (snd (close env st)) = None"
  by (simp add: close_returns split: option.splits)

lemma log_scan_keeps [simp]:
  "this_browser (log_scan opts msg st) = this_browser st"
  "processes (log_scan opts msg st) = processes st"
  "gotoCalls (log_scan opts msg st) = gotoCalls st"
  by (simp_all add: log_scan_def emit_def)

lemma emit_keeps [simp]:
  "this_browser (emit ev st) = this_browser st"
  "processes (emit ev st) = processes st"
  "gotoCalls (emit ev st) = gotoCalls st"
  by (simp_all add: emit_def)

lemma andThen_this_browser:
  "(\<And>s. this_browser (snd (m s)) = this_browser s) \<Longrightarrow>
   (\<And>a s. this_browser (snd (f a s)) = this_browser s) \<Longrightarrow>
   this_browser (snd (andThen m f st)) = this_browser st"
  by (cases "m st") (auto simp: andThen_def split: sum.splits dest: arg_cong [where f = "\<lambda>p. this_browser (snd p)"])

lemma andThen_processes:
  "(\<And>s. processes (snd (m s)) = processes s) \<Longrightarrow>
   (\<And>a s. processes (snd (f a s)) = processes s) \<Longrightarrow>
   processes (snd (andThen m f st)) = processes st"
  by (cases "m st") (auto simp: andThen_def split: sum.splits dest: arg_cong [where f = "\<lambda>p. processes (snd p)"])

lemma gotoLoop_keeps:
  "this_browser (snd (gotoLoop env opts n st)) = this_browser st \<and>
   processes (snd (gotoLoop env opts n st)) = processes st"
  by (induction n arbitrary: st) (auto simp: Let_def split: option.splits)

lemma steps_keep [simp]:
  "this_browser (snd (getPage env st)) = this_browser st"
  "processes (snd (getPage env st)) = processes st"
  "this_browser (snd (setViewport env opts st)) = this_browser st"
  "processes (snd (setViewport env opts st)) = processes st"
  "this_browser (snd (gotoLoop env opts n st)) = this_browser st"
  "processes (snd (gotoLoop env opts n st)) = processes st"
  "this_browser (snd (waitForNetworkIdle env opts st)) = this_browser st"
  "processes (snd (waitForNetworkIdle env opts st)) = processes st"
  "this_browser (snd (content env st)) = this_browser st"
  "processes (snd (content env st)) = processes st"
  "this_browser (snd (validate env pc st)) = this_browser st"
  "processes (snd (validate env pc st)) = processes st"
  "this_browser (snd (say opts msg st)) = this_browser st"
  "processes (snd (say opts msg st)) = processes st"
  "this_browser (snd (skip st)) = this_browser st"
  "processes (snd (skip st)) = processes st"
  "this_browser (snd (buildVirtualDOM env st)) = this_browser st"
  "processes (snd (buildVirtualDOM env st)) = processes st"
  "this_browser (snd (injectAxe env st)) = this_browser st"
  "processes (snd (injectAxe env st)) = processes st"
  "this_browser (snd (runAxe env st)) = this_browser st"
  "processes (snd (runAxe env st)) = processes st"
  by (simp_all add: getPage_def setViewport_def gotoLoop_keeps waitForNetworkIdle_def content_def
      validate_def say_def skip_def buildVirtualDOM_def injectAxe_def runAxe_def Let_def
      split: option.splits sum.splits)

lemma tryFinally_eq:
  "close_result env = None \<Longrightarrow>
   tryFinally body (close env) st = (fst (body st), snd (close env (snd (body st))))"
  by (cases "body st") (simp add: tryFinally_def close_returns)

lemma scan_processes:
  assumes "this_browser st = None" and cr: "close_result env = None"
  shows "processes (snd (scan env db lang now opts st)) = processes st"
proof (cases "launch_result env")
  case (Some e)
  then have "initBrowser env opts st = (Inl e, emit (Launch (headless opts)) st)"
    by (simp add: initBrowser_def Let_def)
  then have "scan env db lang now opts st = (Inl e, snd (close env (emit (Launch (headless opts)) st)))"
    by (simp add: scan_def tryFinally_eq [OF cr] andThen_def)
  with assms show ?thesis
    by (simp add: close_returns)
next
  case None
  define st1 where "st1 = (emit (Launch (headless opts)) st)
      \<lparr> this_browser := Some (fresh_handle (processes st)),
        processes := processes st @ [fresh_handle (processes st)] \<rparr>"
  define rest where "rest =
        andThen (getPage env) (\<lambda>page.
        andThen (setViewport env opts) (\<lambda>_.
        andThen (gotoLoop env opts 3) (\<lambda>_.
        andThen (waitForNetworkIdle env opts) (\<lambda>_.
        andThen (content env) (\<lambda>pageContent.
        andThen (validate env pageContent) (\<lambda>validation.
        andThen (if \<not> valid validation
                 then say opts (''HTML Validation: Found ''
                        @ numberToString (length (errors validation)) @ '' structural issues.'')
                 else skip) (\<lambda>_.
        andThen (buildVirtualDOM env) (\<lambda>_.
        andThen (injectAxe env) (\<lambda>_.
        andThen (say opts ''Axe injected. Running analysis...'') (\<lambda>_.
        andThen (runAxe env) (\<lambda>axeResults.
        andThen (say opts (''Raw Axe Violations: ''
                   @ numberToString (length (violations axeResults)))) (\<lambda>_.
          (\<lambda>st.
             (Inr ((generateResultPackage (url opts) now (enrichResults db lang axeResults))
                     \<lparr> htmlValidation := Some validation \<rparr>), st))))))))))))))"
  have tb: "this_browser (snd (rest s)) = this_browser s" for s
    unfolding rest_def by (intro andThen_this_browser) simp_all
  have pr: "processes (snd (rest s)) = processes s" for s
    unfolding rest_def by (intro andThen_processes) simp_all
  have init: "initBrowser env opts st = (Inr (), st1)"
    using None by (simp add: initBrowser_def Let_def st1_def)
  have "scan env db lang now opts st = tryFinally (andThen (initBrowser env opts) (\<lambda>_. rest)) (close env) st"
    by (simp add: scan_def rest_def)
  also have "\<dots> = (fst (rest st1), snd (close env (snd (rest st1))))"
    by (simp add: tryFinally_eq [OF cr] andThen_def init)
  finally have "scan env db lang now opts st = (fst (rest st1), snd (close env (snd (rest st1))))" .
  then have "processes (snd (scan env db lang now opts st)) = processes (snd (close env (snd (rest st1))))"
    by simp
  also have "\<dots> = removeAll (fresh_handle (processes st)) (processes st @ [fresh_handle (processes st)])"
    by (simp add: close_returns [OF cr] tb pr st1_def)
  also have "\<dots> = processes st"
    using fresh_handle_new [of "processes st"] by simp
  finally show ?thesis .
qed

lemma scan_this_browser:
  "close_result env = None \<Longrightarrow> this_browser (snd (scan env db lang now opts st)) = None"
  by (simp add: scan_def tryFinally_eq close_this_browser)

lemma gotoLoop_retry:
  assumes "goto_result env (gotoCalls s) \<noteq> None"
  shows "gotoLoop env opts (Suc (Suc n)) s =
         gotoLoop env opts (Suc n)
           (emit (SetTimeout 2000)
              (log_scan opts
                 (''Navigation failed, retrying... ('' @ numberToString (Suc n) @ '' attempts left)'')
                 ((emit (Goto (url opts) ''domcontentloaded'' 60000) s) \<lparr> gotoCalls := gotoCalls s + 1 \<rparr>)))"
  using assms
  by (subst gotoLoop.simps(2)) (auto simp del: gotoLoop.simps simp add: Let_def)

lemma gotoLoop_last:
  assumes "goto_result env (gotoCalls s) = Some e"
  shows "gotoLoop env opts (Suc 0) s =
         (Inl e, (emit (Goto (url opts) ''domcontentloaded'' 60000) s) \<lparr> gotoCalls := gotoCalls s + 1 \<rparr>)"
  using assms by (simp add: Let_def)

lemma scan_navigation_exhausted:
  assumes "this_browser st = None" "launch_result env = None" "newPage_result env = None"
    "setUserAgent_result env = None" "viewport opts = None \<or> setViewport_result env = None"
    "goto_result env (gotoCalls st) = Some e1" "goto_result env (gotoCalls st + 1) = Some e2"
    "goto_result env (gotoCalls st + 2) = Some e3" and cr: "close_result env = None"
  shows "fst (scan env db lang now opts st) = Inl e3 \<and>
         trace (snd (scan env db lang now opts st)) =
           trace st @ [Launch (headless opts), NewPage, SetUserAgent]
             @ (case viewport opts of None \<Rightarrow> [] | Some vp \<Rightarrow> [SetViewport vp])
             @ [Goto (url opts) ''domcontentloaded'' 60000]
             @ (if silent opts then [] else [ConsoleLog ''Navigation failed, retrying... (2 attempts left)''])
             @ [SetTimeout 2000, Goto (url opts) ''domcontentloaded'' 60000]
             @ (if silent opts then [] else [ConsoleLog ''Navigation failed, retrying... (1 attempts left)''])
             @ [SetTimeout 2000, Goto (url opts) ''domcontentloaded'' 60000,
                BrowserClose (fresh_handle (processes st))]"
proof -
  define st1 where "st1 = (emit (Launch (headless opts)) st)
      \<lparr> this_browser := Some (fresh_handle (processes st)),
        processes := processes st @ [fresh_handle (processes st)] \<rparr>"
  have init: "initBrowser env opts st = (Inr (), st1)"
    using assms(2) by (simp add: initBrowser_def Let_def st1_def)
  define st2 where "st2 = emit SetUserAgent (emit NewPage st1)"
  have page: "getPage env st1 = (Inr (), st2)"
    using assms(3,4) by (simp add: getPage_def Let_def st1_def st2_def)
  define st3 where "st3 = (case viewport opts of None \<Rightarrow> st2 | Some vp \<Rightarrow> emit (SetViewport vp) st2)"
  have vp: "setViewport env opts st2 = (Inr (), st3)"
    using assms(5) by (auto simp: setViewport_def Let_def st3_def split: option.splits)
  have calls: "gotoCalls st3 = gotoCalls st"
    by (simp add: st3_def st2_def st1_def split: option.splits)
  define s4 where "s4 = (emit (Goto (url opts) ''domcontentloaded'' 60000) st3) \<lparr> gotoCalls := gotoCalls st3 + 1 \<rparr>"
  define s5 where "s5 = emit (SetTimeout 2000)
      (log_scan opts (''Navigation failed, retrying... ('' @ numberToString (Suc (Suc 0)) @ '' attempts left)'') s4)"
  define s6 where "s6 = (emit (Goto (url opts) ''domcontentloaded'' 60000) s5) \<lparr> gotoCalls := gotoCalls s5 + 1 \<rparr>"
  define s7 where "s7 = emit (SetTimeout 2000)
      (log_scan opts (''Navigation failed, retrying... ('' @ numberToString (Suc 0) @ '' attempts left)'') s6)"
  define s8 where "s8 = (emit (Goto (url opts) ''domcontentloaded'' 60000) s7) \<lparr> gotoCalls := gotoCalls s7 + 1 \<rparr>"
  have c5: "gotoCalls s5 = gotoCalls st + 1" by (simp add: s5_def s4_def calls)
  have c7: "gotoCalls s7 = gotoCalls st + 2" by (simp add: s7_def s6_def c5)
  have n3: "gotoLoop env opts (Suc (Suc (Suc 0))) st3 = gotoLoop env opts (Suc (Suc 0)) s5"
    unfolding s5_def s4_def by (rule gotoLoop_retry) (use assms(6) in \<open>simp add: calls\<close>)
  have n2: "gotoLoop env opts (Suc (Suc 0)) s5 = gotoLoop env opts (Suc 0) s7"
    unfolding s7_def s6_def by (rule gotoLoop_retry) (use assms(7) in \<open>simp add: c5\<close>)
  have n1: "gotoLoop env opts (Suc 0) s7 = (Inl e3, s8)"
    unfolding s8_def by (rule gotoLoop_last) (use assms(8) in \<open>simp add: c7\<close>)
  have nav: "gotoLoop env opts 3 st3 = (Inl e3, s8)"
    by (simp only: numeral_3_eq_3 n3 n2 n1)
  have tb: "this_browser s8 = Some (fresh_handle (processes st))"
    by (simp add: s8_def s7_def s6_def s5_def s4_def st3_def st2_def st1_def split: option.splits)
  have res: "scan env db lang now opts st = (Inl e3, snd (close env s8))"
    by (simp add: scan_def tryFinally_eq [OF cr] andThen_def init page vp nav)
  have tr: "trace (snd (close env s8)) =
           trace st @ [Launch (headless opts), NewPage, SetUserAgent]
             @ (case viewport opts of None \<Rightarrow> [] | Some vp \<Rightarrow> [SetViewport vp])
             @ [Goto (url opts) ''domcontentloaded'' 60000]
             @ (if silent opts then [] else [ConsoleLog ''Navigation failed, retrying... (2 attempts left)''])
             @ [SetTimeout 2000, Goto (url opts) ''domcontentloaded'' 60000]
             @ (if silent opts then [] else [ConsoleLog ''Navigation failed, retrying... (1 attempts left)''])
             @ [SetTimeout 2000, Goto (url opts) ''domcontentloaded'' 60000,
                BrowserClose (fresh_handle (processes st))]"
    by (simp add: close_returns [OF cr] tb)
       (simp add: s8_def s7_def s6_def s5_def s4_def log_scan_def emit_def st3_def st2_def st1_def
          numberToString.simps split: option.splits)
  from res tr show ?thesis by simp
qed

lemma scan_launch_fails:
  assumes "this_browser st = None" and "launch_result env = Some e"
  shows "scan env db lang now opts st = (Inl e, emit (Launch (headless opts)) st)"
proof -
  from assms(2) have "initBrowser env opts st = (Inl e, emit (Launch (headless opts)) st)"
    by (simp add: initBrowser_def Let_def)
  moreover from assms(1) have "close env (emit (Launch (headless opts)) st)
      = (Inr (), emit (Launch (headless opts)) st)"
    by (simp add: close_def)
  ultimately show ?thesis
    by (simp add: scan_def tryFinally_def andThen_def)
qed

text \<open>
  C1. On every exit of \<open>scan\<close>, returning or throwing, on which \<^verbatim>\<open>browser.close()\<close>
  returns, the scanner is left without a browser, and a scan started without one leaves
  the open browser processes as they were: the browser it launched is closed. A scan whose
  launch throws has no browser to close and throws what the launch threw. When the launch
  and the page set-up succeed, the three calls of \<^verbatim>\<open>page.goto\<close> all throw and
  \<^verbatim>\<open>browser.close()\<close> returns, \<open>scan\<close> throws the very value that the third call threw (the
  source has no error type of its own for it), after exactly three calls with a time-out
  of 60000 ms and a wait of 2000 ms after the first and after the second, and the last
  thing it does is to close the browser it launched.
\<close>

theorem scan_releases_browser_when_close_returns:
  "(close_result env = None \<longrightarrow> this_browser (snd (scan env db lang now opts st)) = None) \<and>
   (close_result env = None \<and> this_browser st = None
    \<longrightarrow> processes (snd (scan env db lang now opts st)) = processes st) \<and>
   (this_browser st = None \<and> launch_result env = Some e
    \<longrightarrow> fst (scan env db lang now opts st) = Inl e \<and>
        this_browser (snd (scan env db lang now opts st)) = None \<and>
        processes (snd (scan env db lang now opts st)) = processes st) \<and>
   (close_result env = None \<and> this_browser st = None \<and> launch_result env = None \<and>
    newPage_result env = None \<and> setUserAgent_result env = None \<and>
    (viewport opts = None \<or> setViewport_result env = None) \<and>
    goto_result env (gotoCalls st) = Some e1 \<and> goto_result env (gotoCalls st + 1) = Some e2 \<and>
    goto_result env (gotoCalls st + 2) = Some e3
    \<longrightarrow> fst (scan env db lang now opts st) = Inl e3 \<and>
        trace (snd (scan env db lang now opts st)) =
           trace st @ [Launch (headless opts), NewPage, SetUserAgent]
             @ (case viewport opts of None \<Rightarrow> [] | Some vp \<Rightarrow> [SetViewport vp])
             @ [Goto (url opts) ''domcontentloaded'' 60000]
             @ (if silent opts then [] else [ConsoleLog ''Navigation failed, retrying... (2 attempts left)''])
             @ [SetTimeout 2000, Goto (url opts) ''domcontentloaded'' 60000]
             @ (if silent opts then [] else [ConsoleLog ''Navigation failed, retrying... (1 attempts left)''])
             @ [SetTimeout 2000, Goto (url opts) ''domcontentloaded'' 60000,
                BrowserClose (fresh_handle (processes st))])"
proof (intro conjI impI)
  assume "close_result env = None"
  then show "this_browser (snd (scan env db lang now opts st)) = None"
    by (rule scan_this_browser)
next
  assume "close_result env = None \<and> this_browser st = None"
  then show "processes (snd (scan env db lang now opts st)) = processes st"
    by (simp add: scan_processes)
next
  assume h: "this_browser st = None \<and> launch_result env = Some e"
  then have "scan env db lang now opts st = (Inl e, emit (Launch (headless opts)) st)"
    by (simp add: scan_launch_fails)
  with h show "fst (scan env db lang now opts st) = Inl e"
    and "this_browser (snd (scan env db lang now opts st)) = None"
    and "processes (snd (scan env db lang now opts st)) = processes st"
    by simp_all
next
  assume h: "close_result env = None \<and> this_browser st = None \<and> launch_result env = None \<and>
    newPage_result env = None \<and> setUserAgent_result env = None \<and>
    (viewport opts = None \<or> setViewport_result env = None) \<and>
    goto_result env (gotoCalls st) = Some e1 \<and> goto_result env (gotoCalls st + 1) = Some e2 \<and>
    goto_result env (gotoCalls st + 2) = Some e3"
  then have nav: "fst (scan env db lang now opts st) = Inl e3 \<and>
         trace (snd (scan env db lang now opts st)) =
           trace st @ [Launch (headless opts), NewPage, SetUserAgent]
             @ (case viewport opts of None \<Rightarrow> [] | Some vp \<Rightarrow> [SetViewport vp])
             @ [Goto (url opts) ''domcontentloaded'' 60000]
             @ (if silent opts then [] else [ConsoleLog ''Navigation failed, retrying... (2 attempts left)''])
             @ [SetTimeout 2000, Goto (url opts) ''domcontentloaded'' 60000]
             @ (if silent opts then [] else [ConsoleLog ''Navigation failed, retrying... (1 attempts left)''])
             @ [SetTimeout 2000, Goto (url opts) ''domcontentloaded'' 60000,
                BrowserClose (fresh_handle (processes st))]"
    by (intro scan_navigation_exhausted) simp_all
  from nav show "fst (scan env db lang now opts st) = Inl e3" by (rule conjunct1)
  from nav show "trace (snd (scan env db lang now opts st)) =
           trace st @ [Launch (headless opts), NewPage, SetUserAgent]
             @ (case viewport opts of None \<Rightarrow> [] | Some vp \<Rightarrow> [SetViewport vp])
             @ [Goto (url opts) ''domcontentloaded'' 60000]
             @ (if silent opts then [] else [ConsoleLog ''Navigation failed, retrying... (2 attempts left)''])
             @ [SetTimeout 2000, Goto (url opts) ''domcontentloaded'' 60000]
             @ (if silent opts then [] else [ConsoleLog ''Navigation failed, retrying... (1 attempts left)''])
             @ [SetTimeout 2000, Goto (url opts) ''domcontentloaded'' 60000,
                BrowserClose (fresh_handle (processes st))]"
    by (rule conjunct2)
qed

text \<open>
  The scenario on the example environment: an unreachable host, a scanner that has just
  been constructed, a \<^verbatim>\<open>browser.close()\<close> that returns.
\<close>

theorem scan_releases_browser_when_close_returns_witness:
  "fst (scan example_env example_db ''en'' ''2026-01-01T00:00:00.000Z'' example_options initial_state)
     = Inl (Error ''net::ERR_NAME_NOT_RESOLVED'') \<and>
   this_browser (snd (scan example_env example_db ''en'' ''2026-01-01T00:00:00.000Z'' example_options initial_state))
     = None \<and>
   processes (snd (scan example_env example_db ''en'' ''2026-01-01T00:00:00.000Z'' example_options initial_state))
     = [] \<and>
   trace (snd (scan example_env example_db ''en'' ''2026-01-01T00:00:00.000Z'' example_options initial_state))
     = [Launch True, NewPage, SetUserAgent, SetViewport \<lparr> width = 1280, height = 720 \<rparr>,
        Goto ''https://unreachable.invalid'' ''domcontentloaded'' 60000,
        ConsoleLog ''Navigation failed, retrying... (2 attempts left)'',
        SetTimeout 2000,
        Goto ''https://unreachable.invalid'' ''domcontentloaded'' 60000,
        ConsoleLog ''Navigation failed, retrying... (1 attempts left)'',
        SetTimeout 2000,
        Goto ''https://unreachable.invalid'' ''domcontentloaded'' 60000,
        BrowserClose 1]"
  using scan_releases_browser_when_close_returns
    [of example_env example_db "''en''" "''2026-01-01T00:00:00.000Z''" example_options initial_state
        "Error ''launch''"
        "Error ''net::ERR_NAME_NOT_RESOLVED''" "Error ''net::ERR_NAME_NOT_RESOLVED''"
        "Error ''net::ERR_NAME_NOT_RESOLVED''"]
  by (simp add: example_env_def example_options_def initial_state_def fresh_handle_def)

text \<open>
  The statement for every exit fails on an exit on which \<^verbatim>\<open>browser.close()\<close> throws: in
  the same scenario, \<open>scan\<close> then throws what \<^verbatim>\<open>browser.close()\<close> threw and not what the
  third \<^verbatim>\<open>page.goto\<close> threw, the scanner still holds the browser, and the browser process
  is still open.
\<close>

theorem scan_keeps_browser_when_close_throws:
  "goto_result example_env_close_throws 0 = Some (Error ''net::ERR_NAME_NOT_RESOLVED'') \<and>
   goto_result example_env_close_throws 1 = Some (Error ''net::ERR_NAME_NOT_RESOLVED'') \<and>
   goto_result example_env_close_throws 2 = Some (Error ''net::ERR_NAME_NOT_RESOLVED'') \<and>
   fst (scan example_env_close_throws example_db ''en'' ''2026-01-01T00:00:00.000Z'' example_options
          initial_state)
     = Inl (Error ''Protocol error: Connection closed.'') \<and>
   this_browser (snd (scan example_env_close_throws example_db ''en'' ''2026-01-01T00:00:00.000Z''
          example_options initial_state))
     = Some 1 \<and>
   processes (snd (scan example_env_close_throws example_db ''en'' ''2026-01-01T00:00:00.000Z''
          example_options initial_state))
     = [1]"
  by (simp add: scan_def tryFinally_def andThen_def initBrowser_def getPage_def setViewport_def
      numeral_3_eq_3 log_scan_def emit_def close_def Let_def fresh_handle_def
      example_env_close_throws_def example_env_def example_options_def initial_state_def)

end
